theory Spec2Isabelle
  imports Complex_Main
begin

section \<open>Numbers and JavaScript idioms\<close>

text \<open>
  The services compute with JavaScript numbers, which are IEEE 754 doubles. Counts
  (quantities, months) are modelled as integers and amounts of money, prices and
  percentages as rationals. The claims about stock, cash, profit, the blended rate, the
  guards of the recomputation and the bonus records are settled on functions that
  compute with these rationals exactly. Where the rounding of the arithmetic bears on a
  claim (the sum of the payments of a schedule, the comparison of the rounded totals of
  a sale) the functions are modelled in double arithmetic, see below; of a function that
  is modelled both ways the version in double arithmetic carries the suffix \<open>_d\<close>.
  \<open>NaN\<close> and the infinities are outside the model. A nullable column is an \<open>option\<close>.
\<close>

text \<open>\<open>if (x)\<close> on a nullable number: \<open>null\<close>, \<open>undefined\<close> and \<open>0\<close> are falsy.\<close>

definition truthy :: "('a::zero) option \<Rightarrow> bool" where
  "truthy x = (case x of None \<Rightarrow> False | Some v \<Rightarrow> v \<noteq> 0)"

text \<open>\<open>x || 0\<close> on a nullable number.\<close>

definition or_zero :: "('a::zero) option \<Rightarrow> 'a" where
  "or_zero x = (case x of None \<Rightarrow> 0 | Some v \<Rightarrow> v)"

text \<open>\<open>Math.round\<close>: the nearest integer, a half rounded towards plus infinity.\<close>

definition Math_round :: "rat \<Rightarrow> int" where
  "Math_round x = \<lfloor>x + 1 / 2\<rfloor>"

section \<open>Double arithmetic\<close>

text \<open>
  A double is modelled as the rational it denotes, and an operation on doubles as the
  exact operation followed by the rounding \<open>fl\<close> to the nearest double, a tie going to
  the even mantissa, as IEEE 754 prescribes for \<open>+\<close>, \<open>-\<close>, \<open>*\<close> and \<open>/\<close>. Doubles have a
  mantissa of 53 bits and exponents from \<open>-1022\<close> up; below \<open>2 ^ -1022\<close> they are the
  multiples of \<open>2 ^ -1074\<close>. Overflow (results beyond the largest double, about
  \<open>1.8e308\<close>, which the code turns into an infinity) and the sign of zero are outside the
  model.
\<close>

text \<open>The number of binary digits of a positive integer.\<close>

function bits :: "int \<Rightarrow> int" where
  "bits n = (if n \<le> 0 then 0 else 1 + bits (n div 2))"
  by pat_completeness auto
termination
  by (relation "measure nat") auto

declare bits.simps [simp del]

text \<open>\<open>2 ^ e\<close> for an integer \<open>e\<close>, by repeated squaring.\<close>

function pow2 :: "int \<Rightarrow> rat" where
  "pow2 e =
     (if e < 0 then 1 / pow2 (- e)
      else if e = 0 then 1
      else (let h = pow2 (e div 2) in if even e then h * h else 2 * h * h))"
  by pat_completeness auto
termination
  by (relation "measure (\<lambda>e. if e < 0 then nat (- e) + 1 else nat e)") auto

declare pow2.simps [simp del]

text \<open>The binary exponent of \<open>x \<noteq> 0\<close>: the \<open>e\<close> with \<open>2 ^ e \<le> \<bar>x\<bar> < 2 ^ (e + 1)\<close>.\<close>

definition binade :: "rat \<Rightarrow> int" where
  "binade x =
     (let (p, q) = quotient_of \<bar>x\<bar>;
          d = bits p - bits q
      in if pow2 d \<le> \<bar>x\<bar> then d else d - 1)"

text \<open>The nearest integer, a tie going to the even one.\<close>

definition round_even :: "rat \<Rightarrow> int" where
  "round_even y =
     (let f = \<lfloor>y\<rfloor>;
          r = y - of_int f
      in if r < 1 / 2 then f
         else if 1 / 2 < r then f + 1
         else if even f then f else f + 1)"

text \<open>The double nearest to \<open>x\<close>: \<open>x\<close> rounded to a multiple of the spacing of the doubles around it.\<close>

definition fl :: "rat \<Rightarrow> rat" where
  "fl x =
     (if x = 0 then 0
      else (let e = max (binade x) (- 1022);
                q = pow2 (e - 52)
            in of_int (round_even (x / q)) * q))"

text \<open>
  A number of a request or of a stored row is read as the double nearest to it: the
  number itself when it is a double, and for a decimal such as \<open>0.29\<close> the double that
  the literal denotes.
\<close>

definition read_d :: "rat option \<Rightarrow> rat option" where
  "read_d x = map_option fl x"

section \<open>Data model\<close>

datatype PaymentType = CASH | CARD | TERMINAL | CREDIT | INSTALLMENT

datatype TransactionType = SALE | PURCHASE | TRANSFER | RETURN | WRITE_OFF | DELIVERY

datatype ProductStatus =
  IN_STORE | DEFECTIVE | FIXED | RETURNED | EXCHANGED | SOLD | IN_WAREHOUSE

record Product =
  prod_price :: rat
  prod_quantity :: int
  prod_defectiveQuantity :: int
  prod_returnedQuantity :: int
  prod_exchangedQuantity :: int
  prod_status :: ProductStatus
  prod_bonusPercentage :: "rat option"
  prod_branchId :: "nat option"

text \<open>
  A line of a transaction. The same shape serves for the line of a sale request
  (\<open>TransactionItemDto\<close>) and for the stored row; a stored row is identified by its
  position in the item list of its transaction.
\<close>

record TransactionItem =
  item_productId :: "nat option"
  item_quantity :: int
  item_price :: rat
  item_sellingPrice :: "rat option"
  item_originalPrice :: "rat option"
  item_total :: "rat option"
  item_creditMonth :: "int option"
  item_creditPercent :: "rat option"
  item_status :: "string option"

record PaymentSchedule =
  ps_transactionId :: nat
  ps_month :: int
  ps_payment :: rat
  ps_remainingBalance :: rat
  ps_isPaid :: bool
  ps_paidAmount :: rat
  ps_installmentType :: "string option"
  ps_totalMonths :: "int option"
  ps_remainingMonths :: "int option"
  ps_isDailyInstallment :: bool
  ps_totalDays :: "int option"

record Payment =
  pay_method :: string
  pay_amount :: rat

record Transaction =
  tx_type :: TransactionType
  tx_paymentType :: "PaymentType option"
  tx_total :: rat
  tx_finalTotal :: rat
  tx_remainingBalance :: rat
  tx_amountPaid :: "rat option"
  tx_downPayment :: "rat option"
  tx_extraProfit :: "rat option"
  tx_termUnit :: string
  tx_fromBranchId :: "nat option"
  tx_toBranchId :: "nat option"
  tx_items :: "TransactionItem list"
  tx_paymentSchedules :: "PaymentSchedule list"
  tx_payments :: "Payment list"

section \<open>Schedule engine: generation at sale time\<close>

text \<open>
  In this section and the next the engine computes with exact rationals; the same
  functions in double arithmetic follow in the section after.
\<close>

text \<open>
  The accumulators of the first loop of \<open>createPaymentSchedule\<close>
  (\<open>totalPrincipal\<close>, \<open>weightedPercentSum\<close>, \<open>percentWeightBase\<close>, \<open>totalMonths\<close>).
\<close>

record Totals =
  totalPrincipal :: rat
  weightedPercentSum :: rat
  percentWeightBase :: rat
  totalMonths :: int

definition line_principal :: "TransactionItem \<Rightarrow> rat" where
  "line_principal item = item_price item * of_int (item_quantity item)"

definition add_item :: "Totals \<Rightarrow> TransactionItem \<Rightarrow> Totals" where
  "add_item acc item =
     (let acc1 = acc\<lparr>totalPrincipal := totalPrincipal acc + line_principal item\<rparr>;
          acc2 = (if truthy (item_creditPercent item)
                  then acc1\<lparr>weightedPercentSum :=
                              weightedPercentSum acc1
                                + line_principal item * or_zero (item_creditPercent item),
                            percentWeightBase := percentWeightBase acc1 + line_principal item\<rparr>
                  else acc1)
      in (if truthy (item_creditMonth item)
          then acc2\<lparr>totalMonths := max (totalMonths acc2) (or_zero (item_creditMonth item))\<rparr>
          else acc2))"

fun sum_items :: "Totals \<Rightarrow> TransactionItem list \<Rightarrow> Totals" where
  "sum_items acc [] = acc"
| "sum_items acc (item # items) = sum_items (add_item acc item) items"

definition zero_totals :: Totals where
  "zero_totals =
     \<lparr>totalPrincipal = 0, weightedPercentSum = 0, percentWeightBase = 0, totalMonths = 0\<rparr>"

text \<open>\<open>percentWeightBase > 0 ? weightedPercentSum / percentWeightBase : 0\<close>\<close>

definition effectivePercent :: "Totals \<Rightarrow> rat" where
  "effectivePercent t =
     (if percentWeightBase t > 0 then weightedPercentSum t / percentWeightBase t else 0)"

text \<open>
  \<open>remainingWithInterest\<close> as both schedule generators and \<open>create\<close> compute it from the
  line_principal, the upfront payment and the blended rate.
\<close>

definition remainingWithInterest_of :: "rat \<Rightarrow> rat \<Rightarrow> rat \<Rightarrow> rat" where
  "remainingWithInterest_of principalSum upfrontPayment percent =
     (let remainingPrincipal = max 0 (principalSum - upfrontPayment);
          interestAmount = remainingPrincipal * percent
      in remainingPrincipal + interestAmount)"

text \<open>
  The \<open>for (let month = 1; month <= totalMonths; month++)\<close> loop of
  \<open>createPaymentSchedule\<close>, started at \<open>month\<close> with the running \<open>remainingBalance\<close>.
\<close>

function monthly_rows ::
  "nat \<Rightarrow> int \<Rightarrow> rat \<Rightarrow> int \<Rightarrow> rat \<Rightarrow> PaymentSchedule list" where
  "monthly_rows transactionId months monthlyPayment month remainingBalance =
     (if month \<le> months then
        (let currentPayment = (if month = months then remainingBalance else monthlyPayment);
             remainingBalance' = remainingBalance - currentPayment
         in \<lparr>ps_transactionId = transactionId, ps_month = month,
              ps_payment = currentPayment,
              ps_remainingBalance = max 0 remainingBalance',
              ps_isPaid = False, ps_paidAmount = 0,
              ps_installmentType = Some ''MONTHLY'',
              ps_totalMonths = Some months,
              ps_remainingMonths = Some (months - month + 1),
              ps_isDailyInstallment = False, ps_totalDays = None\<rparr>
            # monthly_rows transactionId months monthlyPayment (month + 1) remainingBalance')
      else [])"
  by pat_completeness auto
termination
  by (relation "measure (\<lambda>(t, months, mp, month, rb). nat (months + 1 - month))") auto

declare monthly_rows.simps [simp del]

text \<open>
  \<open>createPaymentSchedule(transactionId, items, downPayment)\<close>: the rows handed to
  \<open>paymentSchedule.createMany\<close> (none when the guard fails).
\<close>

definition createPaymentSchedule ::
  "nat \<Rightarrow> TransactionItem list \<Rightarrow> rat \<Rightarrow> PaymentSchedule list" where
  "createPaymentSchedule transactionId items downPayment =
     (let t = sum_items zero_totals items in
      if totalPrincipal t > 0 \<and> totalMonths t > 0 then
        (let remainingWithInterest =
               remainingWithInterest_of (totalPrincipal t) downPayment (effectivePercent t);
             monthlyPayment = remainingWithInterest / of_int (totalMonths t)
         in monthly_rows transactionId (totalMonths t) monthlyPayment 1 remainingWithInterest)
      else [])"

section \<open>The store\<close>

record Branch =
  cashBalance :: rat

record User =
  user_branchId :: "nat option"

record TransactionBonusProduct =
  tbp_transactionId :: nat
  tbp_productId :: nat
  tbp_quantity :: int

record Bonus =
  bonus_userId :: nat
  bonus_branchId :: "nat option"
  bonus_amount :: int
  bonus_reason :: string
  bonus_transactionId :: "nat option"

record DefectiveLog =
  log_productId :: nat
  log_quantity :: int
  log_userId :: "nat option"
  log_branchId :: "nat option"
  log_cashAmount :: rat
  log_actionType :: string
  log_transactionId :: "nat option"
  log_handledByUserId :: "nat option"
  log_cashAdjustmentDirection :: "string option"

text \<open>
  The tables the two services read and write, keyed by row id. The items and the
  payment-schedule rows of a transaction are kept with it, in creation order.
\<close>

record Store =
  products :: "nat \<rightharpoonup> Product"
  branches :: "nat \<rightharpoonup> Branch"
  users :: "nat \<rightharpoonup> User"
  transactions :: "nat \<rightharpoonup> Transaction"
  transactionBonusProducts :: "TransactionBonusProduct list"
  bonuses :: "Bonus list"
  defectiveLogs :: "DefectiveLog list"

text \<open>\<open>transaction.update({ where: { id }, data })\<close>; the row is known to exist where it is used.\<close>

definition update_transaction :: "Store \<Rightarrow> nat \<Rightarrow> (Transaction \<Rightarrow> Transaction) \<Rightarrow> Store" where
  "update_transaction s transactionId f =
     (case transactions s transactionId of
        None \<Rightarrow> s
      | Some t \<Rightarrow> s\<lparr>transactions := (transactions s)(transactionId \<mapsto> f t)\<rparr>)"

section \<open>Schedule engine: recomputation after a return\<close>

record OriginalTotals =
  originalTotalPrincipal :: rat
  originalWeightedPercentSum :: rat
  originalPercentWeightBase :: rat
  recalc_totalMonths :: int

record RemainingTotals =
  remainingTotalPrincipal :: rat
  remainingWeightedPercentSum :: rat
  remainingPercentWeightBase :: rat

text \<open>
  One step of the first pass of \<open>recalculatePaymentSchedules\<close>, over \<open>allItems\<close>.
  \<open>originalQuantity\<close> is \<open>item.quantity + (item.status === 'RETURNED' ? 0 : 0)\<close>.
\<close>

definition add_original_item :: "OriginalTotals \<Rightarrow> TransactionItem \<Rightarrow> OriginalTotals" where
  "add_original_item acc item =
     (let originalQuantity =
            item_quantity item + (if item_status item = Some ''RETURNED'' then 0 else 0);
          p = item_price item * of_int originalQuantity;
          acc1 = acc\<lparr>originalTotalPrincipal := originalTotalPrincipal acc + p\<rparr>;
          acc2 = (if truthy (item_creditPercent item)
                  then acc1\<lparr>originalWeightedPercentSum :=
                              originalWeightedPercentSum acc1 + p * or_zero (item_creditPercent item),
                            originalPercentWeightBase := originalPercentWeightBase acc1 + p\<rparr>
                  else acc1)
      in (if truthy (item_creditMonth item)
          then acc2\<lparr>recalc_totalMonths :=
                      max (recalc_totalMonths acc2) (or_zero (item_creditMonth item))\<rparr>
          else acc2))"

fun original_totals :: "OriginalTotals \<Rightarrow> TransactionItem list \<Rightarrow> OriginalTotals" where
  "original_totals acc [] = acc"
| "original_totals acc (item # items) = original_totals (add_original_item acc item) items"

text \<open>One step of the second pass, over \<open>remainingItems\<close>.\<close>

definition add_remaining_item :: "RemainingTotals \<Rightarrow> TransactionItem \<Rightarrow> RemainingTotals" where
  "add_remaining_item acc item =
     (let p = item_price item * of_int (item_quantity item);
          acc1 = acc\<lparr>remainingTotalPrincipal := remainingTotalPrincipal acc + p\<rparr>
      in (if truthy (item_creditPercent item)
          then acc1\<lparr>remainingWeightedPercentSum :=
                      remainingWeightedPercentSum acc1 + p * or_zero (item_creditPercent item),
                    remainingPercentWeightBase := remainingPercentWeightBase acc1 + p\<rparr>
          else acc1))"

fun remaining_totals :: "RemainingTotals \<Rightarrow> TransactionItem list \<Rightarrow> RemainingTotals" where
  "remaining_totals acc [] = acc"
| "remaining_totals acc (item # items) = remaining_totals (add_remaining_item acc item) items"

definition recalc_original :: "Transaction \<Rightarrow> OriginalTotals" where
  "recalc_original transaction =
     original_totals
       \<lparr>originalTotalPrincipal = 0, originalWeightedPercentSum = 0,
        originalPercentWeightBase = 0, recalc_totalMonths = 0\<rparr>
       (tx_items transaction)"

definition remainingItems :: "Transaction \<Rightarrow> TransactionItem list" where
  "remainingItems transaction = filter (\<lambda>item. item_quantity item > 0) (tx_items transaction)"

definition recalc_remaining :: "Transaction \<Rightarrow> RemainingTotals" where
  "recalc_remaining transaction =
     remaining_totals
       \<lparr>remainingTotalPrincipal = 0, remainingWeightedPercentSum = 0,
        remainingPercentWeightBase = 0\<rparr>
       (remainingItems transaction)"

text \<open>
  \<open>proportionalUpfront = originalUpfrontPayment * upfrontRatio\<close>, with
  \<open>originalUpfrontPayment = transaction.amountPaid || 0\<close>.
\<close>

definition upfrontRatio :: "Transaction \<Rightarrow> rat" where
  "upfrontRatio transaction =
     (if originalTotalPrincipal (recalc_original transaction) > 0
      then remainingTotalPrincipal (recalc_remaining transaction)
             / originalTotalPrincipal (recalc_original transaction)
      else 0)"

definition proportionalUpfront :: "Transaction \<Rightarrow> rat" where
  "proportionalUpfront transaction = or_zero (tx_amountPaid transaction) * upfrontRatio transaction"

definition recalc_effectivePercent :: "Transaction \<Rightarrow> rat" where
  "recalc_effectivePercent transaction =
     (let r = recalc_remaining transaction in
      if remainingPercentWeightBase r > 0
      then remainingWeightedPercentSum r / remainingPercentWeightBase r else 0)"

definition recalc_remainingWithInterest :: "Transaction \<Rightarrow> rat" where
  "recalc_remainingWithInterest transaction =
     remainingWithInterest_of (remainingTotalPrincipal (recalc_remaining transaction))
       (proportionalUpfront transaction) (recalc_effectivePercent transaction)"

text \<open>The row loop of \<open>recalculatePaymentSchedules\<close>.\<close>

function recalc_rows ::
  "nat \<Rightarrow> int \<Rightarrow> rat \<Rightarrow> int \<Rightarrow> rat \<Rightarrow> PaymentSchedule list" where
  "recalc_rows transactionId months monthlyPayment month remainingBalance =
     (if month \<le> months then
        (let currentPayment = (if month = months then remainingBalance else monthlyPayment);
             remainingBalance' = remainingBalance - currentPayment
         in \<lparr>ps_transactionId = transactionId, ps_month = month,
              ps_payment = currentPayment,
              ps_remainingBalance = max 0 remainingBalance',
              ps_isPaid = False, ps_paidAmount = 0,
              ps_installmentType = None, ps_totalMonths = None,
              ps_remainingMonths = None,
              ps_isDailyInstallment = False, ps_totalDays = None\<rparr>
            # recalc_rows transactionId months monthlyPayment (month + 1) remainingBalance')
      else [])"
  by pat_completeness auto
termination
  by (relation "measure (\<lambda>(t, months, mp, month, rb). nat (months + 1 - month))") auto

declare recalc_rows.simps [simp del]

definition recalculatePaymentSchedules :: "Store \<Rightarrow> nat \<Rightarrow> Store" where
  "recalculatePaymentSchedules s transactionId =
     (case transactions s transactionId of
        None \<Rightarrow> s
      | Some transaction \<Rightarrow>
          if tx_paymentType transaction \<noteq> Some CREDIT
             \<and> tx_paymentType transaction \<noteq> Some INSTALLMENT
          then s
          else
            (let s1 = (if length (tx_paymentSchedules transaction) > 0
                       then update_transaction s transactionId
                              (\<lambda>t. t\<lparr>tx_paymentSchedules := []\<rparr>)
                       else s)
             in if length (remainingItems transaction) = 0 then s1
                else if remainingTotalPrincipal (recalc_remaining transaction) > 0
                        \<and> recalc_totalMonths (recalc_original transaction) > 0
                then
                  (let months = recalc_totalMonths (recalc_original transaction);
                       remainingWithInterest = recalc_remainingWithInterest transaction;
                       monthlyPayment = remainingWithInterest / of_int months;
                       schedules =
                         recalc_rows transactionId months monthlyPayment 1 remainingWithInterest;
                       s2 = (if length schedules > 0
                             then update_transaction s1 transactionId
                                    (\<lambda>t. t\<lparr>tx_paymentSchedules :=
                                               tx_paymentSchedules t @ schedules\<rparr>)
                             else s1)
                   in update_transaction s2 transactionId
                        (\<lambda>t. t\<lparr>tx_total := remainingTotalPrincipal (recalc_remaining transaction),
                                tx_finalTotal := remainingWithInterest\<rparr>))
                else s1))"

section \<open>The schedule engine in double arithmetic\<close>

text \<open>
  The two schedule generators once more, now with every \<open>+\<close>, \<open>-\<close>, \<open>*\<close> and \<open>/\<close> of the
  source rounded to a double. Comparisons, \<open>Math.max\<close> and the integer months are exact.
\<close>

text \<open>\<open>principal = (item.price || 0) * (item.quantity || 0)\<close>\<close>

definition line_principal_d :: "TransactionItem \<Rightarrow> rat" where
  "line_principal_d item = fl (fl (item_price item) * of_int (item_quantity item))"

text \<open>One iteration of the first loop of \<open>createPaymentSchedule\<close>.\<close>

definition add_item_d :: "Totals \<Rightarrow> TransactionItem \<Rightarrow> Totals" where
  "add_item_d acc item =
     (let p = line_principal_d item;
          acc1 = acc\<lparr>totalPrincipal := fl (totalPrincipal acc + p)\<rparr>;
          acc2 = (if truthy (read_d (item_creditPercent item))
                  then acc1\<lparr>weightedPercentSum :=
                              fl (weightedPercentSum acc1
                                    + fl (p * or_zero (read_d (item_creditPercent item)))),
                            percentWeightBase := fl (percentWeightBase acc1 + p)\<rparr>
                  else acc1)
      in (if truthy (item_creditMonth item)
          then acc2\<lparr>totalMonths := max (totalMonths acc2) (or_zero (item_creditMonth item))\<rparr>
          else acc2))"

fun sum_items_d :: "Totals \<Rightarrow> TransactionItem list \<Rightarrow> Totals" where
  "sum_items_d acc [] = acc"
| "sum_items_d acc (item # items) = sum_items_d (add_item_d acc item) items"

text \<open>\<open>percentWeightBase > 0 ? weightedPercentSum / percentWeightBase : 0\<close>\<close>

definition effectivePercent_d :: "Totals \<Rightarrow> rat" where
  "effectivePercent_d t =
     (if percentWeightBase t > 0 then fl (weightedPercentSum t / percentWeightBase t) else 0)"

text \<open>
  \<open>remainingPrincipal = Math.max(0, principal - upfrontPayment)\<close>,
  \<open>interestAmount = remainingPrincipal * effectivePercent\<close>,
  \<open>remainingWithInterest = remainingPrincipal + interestAmount\<close>.
\<close>

definition remainingWithInterest_d :: "rat \<Rightarrow> rat \<Rightarrow> rat \<Rightarrow> rat" where
  "remainingWithInterest_d principalSum upfrontPayment percent =
     (let remainingPrincipal = max 0 (fl (principalSum - upfrontPayment));
          interestAmount = fl (remainingPrincipal * percent)
      in fl (remainingPrincipal + interestAmount))"

text \<open>
  The \<open>for (let month = 1; month <= totalMonths; month++)\<close> loop of
  \<open>createPaymentSchedule\<close>, started at \<open>month\<close> with the running \<open>remainingBalance\<close>:
  \<open>remainingBalance -= currentPayment\<close> rounds the difference.
\<close>

function monthly_rows_d ::
  "nat \<Rightarrow> int \<Rightarrow> rat \<Rightarrow> int \<Rightarrow> rat \<Rightarrow> PaymentSchedule list" where
  "monthly_rows_d transactionId months monthlyPayment month remainingBalance =
     (if month \<le> months then
        (let currentPayment = (if month = months then remainingBalance else monthlyPayment);
             remainingBalance' = fl (remainingBalance - currentPayment)
         in \<lparr>ps_transactionId = transactionId, ps_month = month,
              ps_payment = currentPayment,
              ps_remainingBalance = max 0 remainingBalance',
              ps_isPaid = False, ps_paidAmount = 0,
              ps_installmentType = Some ''MONTHLY'',
              ps_totalMonths = Some months,
              ps_remainingMonths = Some (months - month + 1),
              ps_isDailyInstallment = False, ps_totalDays = None\<rparr>
            # monthly_rows_d transactionId months monthlyPayment (month + 1) remainingBalance')
      else [])"
  by pat_completeness auto
termination
  by (relation "measure (\<lambda>(t, months, mp, month, rb). nat (months + 1 - month))") auto

declare monthly_rows_d.simps [simp del]

text \<open>
  \<open>remainingWithInterest\<close> and \<open>monthlyPayment = remainingWithInterest / totalMonths\<close> of
  \<open>createPaymentSchedule\<close>, from the accumulators and \<open>downPayment || 0\<close>.
\<close>

definition schedule_remainingWithInterest :: "TransactionItem list \<Rightarrow> rat \<Rightarrow> rat" where
  "schedule_remainingWithInterest items downPayment =
     (let t = sum_items_d zero_totals items
      in remainingWithInterest_d (totalPrincipal t) (fl downPayment) (effectivePercent_d t))"

definition schedule_monthlyPayment :: "TransactionItem list \<Rightarrow> rat \<Rightarrow> rat" where
  "schedule_monthlyPayment items downPayment =
     fl (schedule_remainingWithInterest items downPayment
           / of_int (totalMonths (sum_items_d zero_totals items)))"

text \<open>
  \<open>createPaymentSchedule(transactionId, items, downPayment)\<close>: the rows handed to
  \<open>paymentSchedule.createMany\<close> (none when the guard fails).
\<close>

definition createPaymentSchedule_d ::
  "nat \<Rightarrow> TransactionItem list \<Rightarrow> rat \<Rightarrow> PaymentSchedule list" where
  "createPaymentSchedule_d transactionId items downPayment =
     (let t = sum_items_d zero_totals items in
      if totalPrincipal t > 0 \<and> totalMonths t > 0 then
        monthly_rows_d transactionId (totalMonths t)
          (schedule_monthlyPayment items downPayment) 1
          (schedule_remainingWithInterest items downPayment)
      else [])"

text \<open>
  \<open>createDailyPaymentSchedule\<close>: one row for the whole remaining amount (its due date,
  the current time plus the number of days, is not modelled).
\<close>

definition createDailyPaymentSchedule ::
  "nat \<Rightarrow> TransactionItem list \<Rightarrow> rat \<Rightarrow> PaymentSchedule list" where
  "createDailyPaymentSchedule transactionId items downPayment =
     (let t = sum_items_d zero_totals items in
      if totalPrincipal t > 0 \<and> totalMonths t > 0 then
        (let remainingWithInterest = schedule_remainingWithInterest items downPayment
         in [\<lparr>ps_transactionId = transactionId, ps_month = 1,
               ps_payment = remainingWithInterest,
               ps_remainingBalance = remainingWithInterest,
               ps_isPaid = False, ps_paidAmount = 0,
               ps_installmentType = Some ''DAILY'', ps_totalMonths = None,
               ps_remainingMonths = None,
               ps_isDailyInstallment = True, ps_totalDays = Some (totalMonths t)\<rparr>])
      else [])"

text \<open>
  One step of the first pass of \<open>recalculatePaymentSchedules\<close>, over \<open>allItems\<close>.
  \<open>originalQuantity\<close> is \<open>item.quantity + (item.status === 'RETURNED' ? 0 : 0)\<close>.
\<close>

definition add_original_item_d :: "OriginalTotals \<Rightarrow> TransactionItem \<Rightarrow> OriginalTotals" where
  "add_original_item_d acc item =
     (let originalQuantity =
            item_quantity item + (if item_status item = Some ''RETURNED'' then 0 else 0);
          p = fl (fl (item_price item) * of_int originalQuantity);
          acc1 = acc\<lparr>originalTotalPrincipal := fl (originalTotalPrincipal acc + p)\<rparr>;
          acc2 = (if truthy (read_d (item_creditPercent item))
                  then acc1\<lparr>originalWeightedPercentSum :=
                              fl (originalWeightedPercentSum acc1
                                    + fl (p * or_zero (read_d (item_creditPercent item)))),
                            originalPercentWeightBase := fl (originalPercentWeightBase acc1 + p)\<rparr>
                  else acc1)
      in (if truthy (item_creditMonth item)
          then acc2\<lparr>recalc_totalMonths :=
                      max (recalc_totalMonths acc2) (or_zero (item_creditMonth item))\<rparr>
          else acc2))"

fun original_totals_d :: "OriginalTotals \<Rightarrow> TransactionItem list \<Rightarrow> OriginalTotals" where
  "original_totals_d acc [] = acc"
| "original_totals_d acc (item # items) = original_totals_d (add_original_item_d acc item) items"

text \<open>One step of the second pass, over \<open>remainingItems\<close>.\<close>

definition add_remaining_item_d :: "RemainingTotals \<Rightarrow> TransactionItem \<Rightarrow> RemainingTotals" where
  "add_remaining_item_d acc item =
     (let p = line_principal_d item;
          acc1 = acc\<lparr>remainingTotalPrincipal := fl (remainingTotalPrincipal acc + p)\<rparr>
      in (if truthy (read_d (item_creditPercent item))
          then acc1\<lparr>remainingWeightedPercentSum :=
                      fl (remainingWeightedPercentSum acc1
                            + fl (p * or_zero (read_d (item_creditPercent item)))),
                    remainingPercentWeightBase := fl (remainingPercentWeightBase acc1 + p)\<rparr>
          else acc1))"

fun remaining_totals_d :: "RemainingTotals \<Rightarrow> TransactionItem list \<Rightarrow> RemainingTotals" where
  "remaining_totals_d acc [] = acc"
| "remaining_totals_d acc (item # items) = remaining_totals_d (add_remaining_item_d acc item) items"

definition recalc_original_d :: "Transaction \<Rightarrow> OriginalTotals" where
  "recalc_original_d transaction =
     original_totals_d
       \<lparr>originalTotalPrincipal = 0, originalWeightedPercentSum = 0,
        originalPercentWeightBase = 0, recalc_totalMonths = 0\<rparr>
       (tx_items transaction)"

definition recalc_remaining_d :: "Transaction \<Rightarrow> RemainingTotals" where
  "recalc_remaining_d transaction =
     remaining_totals_d
       \<lparr>remainingTotalPrincipal = 0, remainingWeightedPercentSum = 0,
        remainingPercentWeightBase = 0\<rparr>
       (remainingItems transaction)"

text \<open>
  \<open>proportionalUpfront = originalUpfrontPayment * upfrontRatio\<close>, with
  \<open>originalUpfrontPayment = transaction.amountPaid || 0\<close>.
\<close>

definition upfrontRatio_d :: "Transaction \<Rightarrow> rat" where
  "upfrontRatio_d transaction =
     (if originalTotalPrincipal (recalc_original_d transaction) > 0
      then fl (remainingTotalPrincipal (recalc_remaining_d transaction)
                 / originalTotalPrincipal (recalc_original_d transaction))
      else 0)"

definition proportionalUpfront_d :: "Transaction \<Rightarrow> rat" where
  "proportionalUpfront_d transaction =
     fl (or_zero (read_d (tx_amountPaid transaction)) * upfrontRatio_d transaction)"

definition recalc_effectivePercent_d :: "Transaction \<Rightarrow> rat" where
  "recalc_effectivePercent_d transaction =
     (let r = recalc_remaining_d transaction in
      if remainingPercentWeightBase r > 0
      then fl (remainingWeightedPercentSum r / remainingPercentWeightBase r) else 0)"

definition recalc_remainingWithInterest_d :: "Transaction \<Rightarrow> rat" where
  "recalc_remainingWithInterest_d transaction =
     remainingWithInterest_d (remainingTotalPrincipal (recalc_remaining_d transaction))
       (proportionalUpfront_d transaction) (recalc_effectivePercent_d transaction)"

definition recalc_monthlyPayment :: "Transaction \<Rightarrow> rat" where
  "recalc_monthlyPayment transaction =
     fl (recalc_remainingWithInterest_d transaction
           / of_int (recalc_totalMonths (recalc_original_d transaction)))"

text \<open>The row loop of \<open>recalculatePaymentSchedules\<close>.\<close>

function recalc_rows_d ::
  "nat \<Rightarrow> int \<Rightarrow> rat \<Rightarrow> int \<Rightarrow> rat \<Rightarrow> PaymentSchedule list" where
  "recalc_rows_d transactionId months monthlyPayment month remainingBalance =
     (if month \<le> months then
        (let currentPayment = (if month = months then remainingBalance else monthlyPayment);
             remainingBalance' = fl (remainingBalance - currentPayment)
         in \<lparr>ps_transactionId = transactionId, ps_month = month,
              ps_payment = currentPayment,
              ps_remainingBalance = max 0 remainingBalance',
              ps_isPaid = False, ps_paidAmount = 0,
              ps_installmentType = None, ps_totalMonths = None,
              ps_remainingMonths = None,
              ps_isDailyInstallment = False, ps_totalDays = None\<rparr>
            # recalc_rows_d transactionId months monthlyPayment (month + 1) remainingBalance')
      else [])"
  by pat_completeness auto
termination
  by (relation "measure (\<lambda>(t, months, mp, month, rb). nat (months + 1 - month))") auto

declare recalc_rows_d.simps [simp del]

definition recalculatePaymentSchedules_d :: "Store \<Rightarrow> nat \<Rightarrow> Store" where
  "recalculatePaymentSchedules_d s transactionId =
     (case transactions s transactionId of
        None \<Rightarrow> s
      | Some transaction \<Rightarrow>
          if tx_paymentType transaction \<noteq> Some CREDIT
             \<and> tx_paymentType transaction \<noteq> Some INSTALLMENT
          then s
          else
            (let s1 = (if length (tx_paymentSchedules transaction) > 0
                       then update_transaction s transactionId
                              (\<lambda>t. t\<lparr>tx_paymentSchedules := []\<rparr>)
                       else s)
             in if length (remainingItems transaction) = 0 then s1
                else if remainingTotalPrincipal (recalc_remaining_d transaction) > 0
                        \<and> recalc_totalMonths (recalc_original_d transaction) > 0
                then
                  (let months = recalc_totalMonths (recalc_original_d transaction);
                       remainingWithInterest = recalc_remainingWithInterest_d transaction;
                       monthlyPayment = recalc_monthlyPayment transaction;
                       schedules =
                         recalc_rows_d transactionId months monthlyPayment 1 remainingWithInterest;
                       s2 = (if length schedules > 0
                             then update_transaction s1 transactionId
                                    (\<lambda>t. t\<lparr>tx_paymentSchedules :=
                                               tx_paymentSchedules t @ schedules\<rparr>)
                             else s1)
                   in update_transaction s2 transactionId
                        (\<lambda>t. t\<lparr>tx_total := remainingTotalPrincipal (recalc_remaining_d transaction),
                                tx_finalTotal := remainingWithInterest\<rparr>))
                else s1))"

section \<open>Post-sale adjustments: \<open>DefectiveLogService.create\<close>\<close>

text \<open>
  The exceptions the service throws: \<open>NotFoundException\<close> for a missing product, branch or
  replacement product, \<open>BadRequestException\<close> for the others. A throw inside the atomic
  write rolls the whole write back, so a failed call leaves the store as it was.
\<close>

datatype error =
    ProductNotFound
  | BranchNotFound
  | DefectiveExceedsStock
  | InvalidActionType
  | ReturnExceedsSold
  | ReplacementNotFound
  | ReplacementExceedsStock
  | UserNotFound
  | InvalidUpfrontPaymentType
  | PaymentsMismatch int int

record CreateDefectiveLogDto =
  dto_productId :: nat
  dto_quantity :: int
  dto_userId :: "nat option"
  dto_branchId :: "nat option"
  dto_actionType :: "string option"
  dto_isFromSale :: bool
  dto_transactionId :: "nat option"
  dto_cashAdjustmentDirection :: "string option"
  dto_cashAmount :: "rat option"
  dto_exchangeWithProductId :: "nat option"
  dto_replacementQuantity :: "int option"
  dto_replacementUnitPrice :: "rat option"
  dto_handledByUserId :: "nat option"

text \<open>A nullable string is truthy when it is present and not empty.\<close>

definition truthy_string :: "string option \<Rightarrow> bool" where
  "truthy_string x = (case x of None \<Rightarrow> False | Some v \<Rightarrow> v \<noteq> [])"

text \<open>\<open>actionType = 'DEFECTIVE'\<close> is the default of the destructuring.\<close>

definition actionType_of :: "CreateDefectiveLogDto \<Rightarrow> string" where
  "actionType_of dto = (case dto_actionType dto of None \<Rightarrow> ''DEFECTIVE'' | Some a \<Rightarrow> a)"

text \<open>\<open>items.find(i => i.productId === productId)\<close>: the position of the first match.\<close>

fun find_position :: "('a \<Rightarrow> bool) \<Rightarrow> 'a list \<Rightarrow> nat option" where
  "find_position P [] = None"
| "find_position P (x # xs) =
     (if P x then Some 0 else map_option Suc (find_position P xs))"

text \<open>\<open>findFirst\<close> ordered by \<open>createdAt\<close> descending: the position of the last match.\<close>

fun find_last_position :: "('a \<Rightarrow> bool) \<Rightarrow> 'a list \<Rightarrow> nat option" where
  "find_last_position P [] = None"
| "find_last_position P (x # xs) =
     (case find_last_position P xs of
        Some k \<Rightarrow> Some (Suc k)
      | None \<Rightarrow> (if P x then Some 0 else None))"

text \<open>The values the \<open>switch (actionType)\<close> assigns before the atomic write.\<close>

record ActionEffect =
  cashAmount :: rat
  newQuantity :: int
  newDefectiveQuantity :: int
  newReturnedQuantity :: int
  newExchangedQuantity :: int
  newStatus :: ProductStatus

definition override_amount :: "CreateDefectiveLogDto \<Rightarrow> rat" where
  "override_amount dto =
     (if dto_cashAdjustmentDirection dto = Some ''PLUS'' then 1 else -1)
       * \<bar>or_zero (dto_cashAmount dto)\<bar>"

text \<open>
  The refund of a RETURN without cashier override:
  \<open>line?.sellingPrice ?? line?.price ?? product.price\<close> times the quantity, negated.
\<close>

definition return_refund :: "Store \<Rightarrow> CreateDefectiveLogDto \<Rightarrow> Product \<Rightarrow> rat" where
  "return_refund s dto product =
     (if dto_isFromSale dto \<and> truthy (dto_transactionId dto) then
        (let line = (case transactions s (or_zero (dto_transactionId dto)) of
                       None \<Rightarrow> None
                     | Some tx \<Rightarrow>
                         List.find (\<lambda>it. item_productId it = Some (dto_productId dto))
                           (tx_items tx));
             unit = (case line of
                       None \<Rightarrow> prod_price product
                     | Some l \<Rightarrow>
                         (case item_sellingPrice l of Some sp \<Rightarrow> sp | None \<Rightarrow> item_price l))
         in - (unit * of_int (dto_quantity dto)))
      else - (prod_price product * of_int (dto_quantity dto)))"

definition action_effect ::
  "Store \<Rightarrow> CreateDefectiveLogDto \<Rightarrow> Product \<Rightarrow> error + ActionEffect" where
  "action_effect s dto product =
     (let quantity = dto_quantity dto;
          actionType = actionType_of dto;
          initial = \<lparr>cashAmount = 0, newQuantity = prod_quantity product,
                     newDefectiveQuantity = prod_defectiveQuantity product,
                     newReturnedQuantity = prod_returnedQuantity product,
                     newExchangedQuantity = prod_exchangedQuantity product,
                     newStatus = prod_status product\<rparr>
      in if actionType = ''DEFECTIVE'' then
           (let q = (if dto_isFromSale dto then prod_quantity product
                     else max 0 (prod_quantity product - quantity))
            in Inr (initial\<lparr>cashAmount := - (prod_price product * of_int quantity),
                            newQuantity := q,
                            newDefectiveQuantity := prod_defectiveQuantity product + quantity,
                            newStatus := (if q = 0 then DEFECTIVE else IN_STORE)\<rparr>))
         else if actionType = ''FIXED'' then
           Inr (initial\<lparr>cashAmount := prod_price product * of_int quantity,
                        newDefectiveQuantity := max 0 (prod_defectiveQuantity product - quantity),
                        newQuantity := prod_quantity product + quantity,
                        newStatus := IN_STORE\<rparr>)
         else if actionType = ''RETURN'' then
           Inr (initial\<lparr>cashAmount :=
                          (if dto_cashAmount dto \<noteq> None \<and> \<bar>or_zero (dto_cashAmount dto)\<bar> > 0
                              \<and> truthy_string (dto_cashAdjustmentDirection dto)
                           then override_amount dto
                           else return_refund s dto product),
                        newReturnedQuantity := prod_returnedQuantity product + quantity,
                        newStatus := RETURNED,
                        newQuantity := prod_quantity product + quantity\<rparr>)
         else if actionType = ''EXCHANGE'' then
           Inr (initial\<lparr>cashAmount :=
                          (if dto_cashAmount dto \<noteq> None
                              \<and> truthy_string (dto_cashAdjustmentDirection dto)
                           then override_amount dto
                           else prod_price product * of_int quantity),
                        newExchangedQuantity := prod_exchangedQuantity product + quantity,
                        newStatus := EXCHANGED,
                        newQuantity := prod_quantity product + quantity\<rparr>)
         else Inl InvalidActionType)"

text \<open>
  The line of a RETURN or EXCHANGE after the reduction: marked \<open>RETURNED\<close> with quantity
  and total 0 when nothing remains, else the remaining quantity at the unit price
  \<open>(orig.sellingPrice ?? orig.price) || 0\<close>.
\<close>

definition reduce_line :: "TransactionItem \<Rightarrow> int \<Rightarrow> TransactionItem" where
  "reduce_line orig quantity =
     (let remainingQty = max 0 (item_quantity orig - quantity)
      in if remainingQty = 0
         then orig\<lparr>item_quantity := 0, item_total := Some 0, item_status := Some ''RETURNED''\<rparr>
         else
           (let unitPrice = (case item_sellingPrice orig of
                               Some sp \<Rightarrow> sp | None \<Rightarrow> item_price orig)
            in orig\<lparr>item_quantity := remainingQty,
                    item_total := Some (of_int remainingQty * unitPrice)\<rparr>))"

text \<open>
  The restock loop over the bonus products of the transaction:
  \<open>product.update({ data: { quantity: { increment: bp.quantity } } })\<close>, a failing update
  (no such product) being ignored.
\<close>

fun restock :: "(nat \<rightharpoonup> Product) \<Rightarrow> TransactionBonusProduct list \<Rightarrow> (nat \<rightharpoonup> Product)" where
  "restock ps [] = ps"
| "restock ps (bp # bps) =
     restock
       (case ps (tbp_productId bp) of
          None \<Rightarrow> ps
        | Some p \<Rightarrow> ps(tbp_productId bp \<mapsto> p\<lparr>prod_quantity := prod_quantity p + tbp_quantity bp\<rparr>))
       bps"

text \<open>
  The bonus reversal of a RETURN: restock and delete the bonus products of the
  transaction, delete its bonus rows, reduce its \<open>extraProfit\<close>. \<open>tx\<close> and \<open>orig\<close> are the
  transaction and the line as read at the start of the linked-sale block, before the
  line is reduced. (Where \<open>originalQty\<close> is 0, which takes a request for a quantity of 0
  or less, the JavaScript quotient is not a number; here it is 0.)
\<close>

definition reverse_bonuses ::
  "Store \<Rightarrow> nat \<Rightarrow> Transaction \<Rightarrow> TransactionItem \<Rightarrow> int \<Rightarrow> Store" where
  "reverse_bonuses s txId tx orig quantity =
     (let txBonusProducts =
            filter (\<lambda>bp. tbp_transactionId bp = txId) (transactionBonusProducts s);
          s1 = (if length txBonusProducts > 0
                then s\<lparr>products := restock (products s) txBonusProducts,
                       transactionBonusProducts :=
                         filter (\<lambda>bp. tbp_transactionId bp \<noteq> txId)
                           (transactionBonusProducts s)\<rparr>
                else s);
          s2 = s1\<lparr>bonuses := filter (\<lambda>b. bonus_transactionId b \<noteq> Some txId) (bonuses s1)\<rparr>;
          originalProfit = or_zero (tx_extraProfit tx);
          originalQty = item_quantity orig + quantity;
          proportionalProfit = originalProfit * (of_int quantity / of_int originalQty);
          newProfit = max 0 (originalProfit - proportionalProfit)
      in update_transaction s2 txId (\<lambda>t. t\<lparr>tx_extraProfit := Some newProfit\<rparr>))"

text \<open>
  The replacement of an EXCHANGE: merge into or add the replacement line, then take the
  replacement quantity from the stock of the replacement product. An absent
  \<open>exchangeWithProductId\<close> names no product.
\<close>

definition replacementQty_of :: "CreateDefectiveLogDto \<Rightarrow> int" where
  "replacementQty_of dto =
     (let v = (if truthy (dto_replacementQuantity dto)
               then or_zero (dto_replacementQuantity dto) else dto_quantity dto)
      in max 1 (if v \<noteq> 0 then v else dto_quantity dto))"

definition add_replacement :: "Store \<Rightarrow> nat \<Rightarrow> CreateDefectiveLogDto \<Rightarrow> error + Store" where
  "add_replacement s txId dto =
     (case dto_exchangeWithProductId dto of
        None \<Rightarrow> Inl ReplacementNotFound
      | Some replProdId \<Rightarrow>
          (let replacementQty = replacementQty_of dto;
               replPrice = (case dto_replacementUnitPrice dto of None \<Rightarrow> 0 | Some v \<Rightarrow> v);
               items = (case transactions s txId of None \<Rightarrow> [] | Some t \<Rightarrow> tx_items t);
               items' =
                 (case find_last_position
                         (\<lambda>it. item_productId it = Some replProdId \<and> item_price it = replPrice)
                         items of
                    Some k \<Rightarrow>
                      (let existingRepl = items ! k
                       in items[k := existingRepl
                            \<lparr>item_quantity := item_quantity existingRepl + replacementQty,
                             item_total :=
                               Some (of_int (item_quantity existingRepl + replacementQty)
                                     * (case item_sellingPrice existingRepl of
                                          Some sp \<Rightarrow> sp
                                        | None \<Rightarrow> item_price existingRepl))\<rparr>])
                  | None \<Rightarrow>
                      items @
                        [\<lparr>item_productId = Some replProdId, item_quantity = replacementQty,
                          item_price = replPrice, item_sellingPrice = Some replPrice,
                          item_originalPrice = Some replPrice,
                          item_total = Some (of_int replacementQty * replPrice),
                          item_creditMonth = None, item_creditPercent = None,
                          item_status = None\<rparr>]);
               s1 = update_transaction s txId (\<lambda>t. t\<lparr>tx_items := items'\<rparr>)
           in case products s1 replProdId of
                None \<Rightarrow> Inl ReplacementNotFound
              | Some repl \<Rightarrow>
                  if replacementQty > prod_quantity repl then Inl ReplacementExceedsStock
                  else Inr (s1\<lparr>products := (products s1)(replProdId \<mapsto>
                              repl\<lparr>prod_quantity := max 0 (prod_quantity repl - replacementQty)\<rparr>)\<rparr>)))"

text \<open>
  The block \<open>if (isFromSale && transactionId)\<close> of the atomic write. The result carries
  \<open>recalcForTxId\<close> (\<open>None\<close> while \<open>shouldRecalculate\<close> is false).
\<close>

definition mutate_sale_line ::
  "Store \<Rightarrow> CreateDefectiveLogDto \<Rightarrow> error + (Store \<times> nat option)" where
  "mutate_sale_line s dto =
     (if dto_isFromSale dto \<and> truthy (dto_transactionId dto) then
        (let txId = or_zero (dto_transactionId dto);
             quantity = dto_quantity dto;
             actionType = actionType_of dto
         in case transactions s txId of
              None \<Rightarrow> Inr (s, None)
            | Some tx \<Rightarrow>
                (case find_position (\<lambda>i. item_productId i = Some (dto_productId dto))
                        (tx_items tx) of
                   None \<Rightarrow> Inr (s, None)
                 | Some k \<Rightarrow>
                     (let orig = tx_items tx ! k in
                      if quantity > item_quantity orig then Inl ReturnExceedsSold
                      else
                        (let s1 = (if actionType = ''RETURN'' \<or> actionType = ''EXCHANGE''
                                   then update_transaction s txId
                                          (\<lambda>t. t\<lparr>tx_items :=
                                                   (tx_items t)[k := reduce_line orig quantity]\<rparr>)
                                   else s);
                             s2 = (if actionType = ''RETURN''
                                   then reverse_bonuses s1 txId tx orig quantity
                                   else s1);
                             recalcForTxId =
                               (if tx_paymentType tx = Some CREDIT
                                   \<or> tx_paymentType tx = Some INSTALLMENT
                                then Some txId else None)
                         in if actionType = ''EXCHANGE''
                            then (case add_replacement s2 txId dto of
                                    Inl e \<Rightarrow> Inl e
                                  | Inr s3 \<Rightarrow> Inr (s3, recalcForTxId))
                            else Inr (s2, recalcForTxId)))))
      else Inr (s, None))"

text \<open>
  The atomic write \<open>prisma.$transaction(...)\<close>: the log row, the product update, the
  linked sale, the cash balance of the branch. It returns the created log.
\<close>

definition atomic_write ::
  "Store \<Rightarrow> CreateDefectiveLogDto \<Rightarrow> ActionEffect
     \<Rightarrow> error + (DefectiveLog \<times> Store \<times> nat option)" where
  "atomic_write s dto eff =
     (let defectiveLog =
            \<lparr>log_productId = dto_productId dto, log_quantity = dto_quantity dto,
             log_userId = dto_userId dto, log_branchId = dto_branchId dto,
             log_cashAmount = cashAmount eff, log_actionType = actionType_of dto,
             log_transactionId =
               (if truthy (dto_transactionId dto) then dto_transactionId dto else None),
             log_handledByUserId =
               (if truthy (dto_handledByUserId dto) then dto_handledByUserId dto else None),
             log_cashAdjustmentDirection =
               (if truthy_string (dto_cashAdjustmentDirection dto)
                then dto_cashAdjustmentDirection dto else None)\<rparr>;
          s1 = s\<lparr>defectiveLogs := defectiveLogs s @ [defectiveLog]\<rparr>;
          s2 = s1\<lparr>products :=
                    (case products s1 (dto_productId dto) of
                       None \<Rightarrow> products s1
                     | Some p \<Rightarrow>
                         (products s1)(dto_productId dto \<mapsto>
                            p\<lparr>prod_quantity := newQuantity eff,
                              prod_defectiveQuantity := newDefectiveQuantity eff,
                              prod_returnedQuantity := newReturnedQuantity eff,
                              prod_exchangedQuantity := newExchangedQuantity eff,
                              prod_status := newStatus eff\<rparr>))\<rparr>
      in case mutate_sale_line s2 dto of
           Inl e \<Rightarrow> Inl e
         | Inr (s3, recalcForTxId) \<Rightarrow>
             (let s4 = (if truthy (dto_branchId dto)
                        then (case branches s3 (or_zero (dto_branchId dto)) of
                                None \<Rightarrow> s3
                              | Some b \<Rightarrow>
                                  s3\<lparr>branches := (branches s3)(or_zero (dto_branchId dto) \<mapsto>
                                        b\<lparr>cashBalance := cashBalance b + cashAmount eff\<rparr>)\<rparr>)
                        else s3)
              in Inr (defectiveLog, s4, recalcForTxId)))"

text \<open>
  \<open>DefectiveLogService.create\<close>: the checks, the \<open>switch\<close>, the atomic write, and after it
  the schedule recomputation when the linked transaction is on credit.
\<close>

definition DefectiveLogService_create ::
  "Store \<Rightarrow> CreateDefectiveLogDto \<Rightarrow> error + (DefectiveLog \<times> Store)" where
  "DefectiveLogService_create s dto =
     (case products s (dto_productId dto) of
        None \<Rightarrow> Inl ProductNotFound
      | Some product \<Rightarrow>
          if truthy (dto_branchId dto) \<and> branches s (or_zero (dto_branchId dto)) = None
          then Inl BranchNotFound
          else if actionType_of dto = ''DEFECTIVE'' \<and> \<not> dto_isFromSale dto
                  \<and> dto_quantity dto > prod_quantity product
          then Inl DefectiveExceedsStock
          else
            (case action_effect s dto product of
               Inl e \<Rightarrow> Inl e
             | Inr eff \<Rightarrow>
                 (case atomic_write s dto eff of
                    Inl e \<Rightarrow> Inl e
                  | Inr (result, s', recalcForTxId) \<Rightarrow>
                      (if truthy recalcForTxId
                       then Inr (result, recalculatePaymentSchedules s' (or_zero recalcForTxId))
                       else Inr (result, s')))))"

section \<open>Sale creation: \<open>TransactionService.create\<close>\<close>

record PaymentBreakdownDto =
  pb_method :: string
  pb_amount :: rat

record CreateTransactionDto =
  ct_userId :: "nat option"
  ct_soldByUserId :: "nat option"
  ct_fromBranchId :: "nat option"
  ct_toBranchId :: "nat option"
  ct_type :: TransactionType
  ct_paymentType :: "PaymentType option"
  ct_downPayment :: "rat option"
  ct_amountPaid :: "rat option"
  ct_upfrontPaymentType :: "string option"
  ct_termUnit :: "string option"
  ct_items :: "TransactionItem list"
  ct_payments :: "PaymentBreakdownDto list option"

text \<open>
  \<open>String.prototype.toUpperCase\<close>. A string is modelled as the bytes of its UTF-8
  encoding. Upper-cased are the ASCII letters and the characters outside ASCII whose
  upper case consists of ASCII letters: dotless i (U+0131) gives \<open>I\<close>, long s (U+017F)
  gives \<open>S\<close>, sharp s (U+00DF) gives \<open>SS\<close>, and the ligatures U+FB00 to U+FB06 give \<open>FF\<close>,
  \<open>FI\<close>, \<open>FL\<close>, \<open>FFI\<close>, \<open>FFL\<close>, \<open>ST\<close> and \<open>ST\<close>. The upper case of every other character
  outside ASCII has a character outside ASCII; such a character is left as it is, which
  makes no difference where the result is compared with words of ASCII letters, as it
  is here.
\<close>

definition toUpperCase_char :: "char \<Rightarrow> char" where
  "toUpperCase_char c =
     (case map_of (zip ''abcdefghijklmnopqrstuvwxyz'' ''ABCDEFGHIJKLMNOPQRSTUVWXYZ'') c of
        Some u \<Rightarrow> u
      | None \<Rightarrow> c)"

definition special_upper :: "(string \<times> string) list" where
  "special_upper =
     [([CHR 0xC4, CHR 0xB1], ''I''),
      ([CHR 0xC5, CHR 0xBF], ''S''),
      ([CHR 0xC3, CHR 0x9F], ''SS''),
      ([CHR 0xEF, CHR 0xAC, CHR 0x80], ''FF''),
      ([CHR 0xEF, CHR 0xAC, CHR 0x81], ''FI''),
      ([CHR 0xEF, CHR 0xAC, CHR 0x82], ''FL''),
      ([CHR 0xEF, CHR 0xAC, CHR 0x83], ''FFI''),
      ([CHR 0xEF, CHR 0xAC, CHR 0x84], ''FFL''),
      ([CHR 0xEF, CHR 0xAC, CHR 0x85], ''ST''),
      ([CHR 0xEF, CHR 0xAC, CHR 0x86], ''ST'')]"

function toUpperCase :: "string \<Rightarrow> string" where
  "toUpperCase [] = []"
| "toUpperCase (c # cs) =
     (case List.find (\<lambda>(k, u). take (length k) (c # cs) = k) special_upper of
        Some (k, u) \<Rightarrow> u @ toUpperCase (drop (length k - 1) cs)
      | None \<Rightarrow> toUpperCase_char c # toUpperCase cs)"
  by pat_completeness auto
termination
  by (relation "measure length") auto

text \<open>The accumulators of the totals loop of \<open>create\<close>, and the loop in exact arithmetic.\<close>

record ComputedTotals =
  computedTotal :: rat
  ct_weightedPercentSum :: rat
  ct_percentWeightBase :: rat





text \<open>The totals loop of \<open>create\<close> in double arithmetic.\<close>

definition add_computed_item_d :: "ComputedTotals \<Rightarrow> TransactionItem \<Rightarrow> ComputedTotals" where
  "add_computed_item_d acc item =
     (let p = line_principal_d item;
          acc1 = acc\<lparr>computedTotal := fl (computedTotal acc + p)\<rparr>
      in (if truthy (read_d (item_creditPercent item))
          then acc1\<lparr>ct_weightedPercentSum :=
                      fl (ct_weightedPercentSum acc1
                            + fl (p * or_zero (read_d (item_creditPercent item)))),
                    ct_percentWeightBase := fl (ct_percentWeightBase acc1 + p)\<rparr>
          else acc1))"

fun computed_totals_d :: "ComputedTotals \<Rightarrow> TransactionItem list \<Rightarrow> ComputedTotals" where
  "computed_totals_d acc [] = acc"
| "computed_totals_d acc (item # items) = computed_totals_d (add_computed_item_d acc item) items"

definition create_totals_d :: "TransactionItem list \<Rightarrow> ComputedTotals" where
  "create_totals_d items =
     computed_totals_d
       \<lparr>computedTotal = 0, ct_weightedPercentSum = 0, ct_percentWeightBase = 0\<rparr> items"

definition create_effectivePercent_d :: "TransactionItem list \<Rightarrow> rat" where
  "create_effectivePercent_d items =
     (let t = create_totals_d items in
      if ct_percentWeightBase t > 0
      then fl (ct_weightedPercentSum t / ct_percentWeightBase t) else 0)"

text \<open>
  \<open>paymentsData\<close>: the breakdown with the method upper-cased and the amount read
  (\<open>Number(p.amount || 0) || 0\<close>), filtered to the entries with a positive amount and one
  of the four known methods.
\<close>

definition paymentsData :: "PaymentBreakdownDto list \<Rightarrow> Payment list" where
  "paymentsData payments =
     filter (\<lambda>p. pay_amount p > 0
                 \<and> pay_method p \<in> set [''CASH'', ''CARD'', ''TERMINAL'', ''TOVAR''])
       (map (\<lambda>p. \<lparr>pay_method = toUpperCase (pb_method p), pay_amount = fl (pb_amount p)\<rparr>)
          payments)"

text \<open>\<open>paymentsData.reduce((sum, p) => sum + p.amount, 0)\<close>, each addition rounded.\<close>

definition totalPayments :: "PaymentBreakdownDto list \<Rightarrow> rat" where
  "totalPayments payments =
     foldl (\<lambda>sum p. fl (sum + pay_amount p)) 0 (paymentsData payments)"

text \<open>
  The validation of the payments breakdown: skipped when \<open>payments\<close> is absent or empty,
  else \<open>Math.round\<close> of the two totals, computed in double arithmetic, must agree. It
  yields \<open>paymentsData\<close>.
\<close>

definition validate_payments ::
  "TransactionItem list \<Rightarrow> PaymentBreakdownDto list option \<Rightarrow> error + Payment list" where
  "validate_payments items payments =
     (case payments of
        None \<Rightarrow> Inr []
      | Some ps \<Rightarrow>
          if length ps > 0 then
            (let roundedTotal = Math_round (computedTotal (create_totals_d items));
                 roundedPayments = Math_round (totalPayments ps)
             in if roundedTotal \<noteq> roundedPayments
                then Inl (PaymentsMismatch roundedTotal roundedPayments)
                else Inr (paymentsData ps))
          else Inr [])"

text \<open>One iteration of the loop of \<open>updateProductQuantities\<close>.\<close>

definition update_item_stock ::
  "TransactionType \<Rightarrow> (nat \<rightharpoonup> Product) \<Rightarrow> TransactionItem \<Rightarrow> (nat \<rightharpoonup> Product)" where
  "update_item_stock type ps item =
     (if truthy (item_productId item) then
        (case ps (or_zero (item_productId item)) of
           None \<Rightarrow> ps
         | Some product \<Rightarrow>
             (let newQuantity =
                    (if type = SALE then max 0 (prod_quantity product - item_quantity item)
                     else if type = PURCHASE then prod_quantity product + item_quantity item
                     else prod_quantity product);
                  newStatus =
                    (if type = SALE then (if newQuantity = 0 then SOLD else IN_STORE)
                     else if type = PURCHASE then IN_WAREHOUSE
                     else prod_status product)
              in ps(or_zero (item_productId item) \<mapsto>
                      product\<lparr>prod_quantity := newQuantity, prod_status := newStatus\<rparr>)))
      else ps)"

fun update_stock ::
  "TransactionType \<Rightarrow> (nat \<rightharpoonup> Product) \<Rightarrow> TransactionItem list \<Rightarrow> (nat \<rightharpoonup> Product)" where
  "update_stock type ps [] = ps"
| "update_stock type ps (item # items) = update_stock type (update_item_stock type ps item) items"

definition updateProductQuantities :: "Store \<Rightarrow> Transaction \<Rightarrow> Store" where
  "updateProductQuantities s transaction =
     s\<lparr>products := update_stock (tx_type transaction) (products s) (tx_items transaction)\<rparr>"

text \<open>The line as \<open>create\<close> stores it.\<close>

definition stored_item :: "TransactionItem \<Rightarrow> TransactionItem" where
  "stored_item item =
     item\<lparr>item_sellingPrice :=
            Some (if truthy (read_d (item_sellingPrice item))
                  then or_zero (read_d (item_sellingPrice item)) else fl (item_price item)),
          item_originalPrice :=
            Some (if truthy (read_d (item_originalPrice item))
                  then or_zero (read_d (item_originalPrice item)) else fl (item_price item)),
          item_total :=
            Some (if truthy (read_d (item_total item)) then or_zero (read_d (item_total item))
                  else line_principal_d item)\<rparr>"

text \<open>
  \<open>TransactionService.create\<close>, for the request \<open>dto\<close> of the authenticated user \<open>userId\<close>;
  \<open>transactionId\<close> is the id the store gives the new row. Modelled: the user check, the
  check of \<open>upfrontPaymentType\<close>, the totals computed once, the validation of the payments
  breakdown, the stored transaction with its items, the schedule and the stock update,
  the arithmetic in doubles. The customer upsert, the deferred bonus calculation (below,
  on its own) and the delivery task do not bear on what is stored here.
\<close>

definition TransactionService_create ::
  "Store \<Rightarrow> nat \<Rightarrow> CreateTransactionDto \<Rightarrow> nat option \<Rightarrow> error + Store" where
  "TransactionService_create s transactionId dto userId =
     (if truthy userId \<and> users s (or_zero userId) = None then Inl UserNotFound
      else if (case ct_upfrontPaymentType dto of
                 None \<Rightarrow> False
               | Some u \<Rightarrow> u \<noteq> [] \<and> u \<notin> set [''CASH'', ''CARD'', ''TERMINAL''])
      then Inl InvalidUpfrontPaymentType
      else
        (let items = ct_items dto;
             t = create_totals_d items;
             upfrontPayment =
               (if truthy (read_d (ct_downPayment dto)) then or_zero (read_d (ct_downPayment dto))
                else or_zero (read_d (ct_amountPaid dto)));
             remainingPrincipal = max 0 (fl (computedTotal t - upfrontPayment));
             interestAmount =
               (if ct_paymentType dto = Some CREDIT \<or> ct_paymentType dto = Some INSTALLMENT
                then fl (remainingPrincipal * create_effectivePercent_d items) else 0);
             remainingWithInterest = fl (remainingPrincipal + interestAmount);
             finalTotalOnce = fl (upfrontPayment + remainingWithInterest)
         in case validate_payments items (ct_payments dto) of
              Inl e \<Rightarrow> Inl e
            | Inr pd \<Rightarrow>
                (let termUnit = (case ct_termUnit dto of
                                   None \<Rightarrow> ''MONTHS''
                                 | Some u \<Rightarrow> if u = [] then ''MONTHS'' else u);
                     transaction0 =
                       \<lparr>tx_type = ct_type dto, tx_paymentType = ct_paymentType dto,
                        tx_total = computedTotal t, tx_finalTotal = finalTotalOnce,
                        tx_remainingBalance = remainingWithInterest,
                        tx_amountPaid = read_d (ct_amountPaid dto),
                        tx_downPayment = read_d (ct_downPayment dto),
                        tx_extraProfit = None, tx_termUnit = termUnit,
                        tx_fromBranchId = ct_fromBranchId dto,
                        tx_toBranchId = ct_toBranchId dto,
                        tx_items = map stored_item items,
                        tx_paymentSchedules = [], tx_payments = pd\<rparr>;
                     schedules =
                       (if tx_paymentType transaction0 = Some CREDIT
                           \<or> tx_paymentType transaction0 = Some INSTALLMENT
                        then (if termUnit = ''DAYS''
                              then createDailyPaymentSchedule transactionId
                                     (tx_items transaction0) (or_zero (ct_downPayment dto))
                              else createPaymentSchedule_d transactionId
                                     (tx_items transaction0) (or_zero (ct_downPayment dto)))
                        else []);
                     s1 = s\<lparr>transactions := (transactions s)(transactionId \<mapsto>
                               transaction0\<lparr>tx_paymentSchedules := schedules\<rparr>)\<rparr>
                 in Inr (updateProductQuantities s1 transaction0))))"

section \<open>Bonus and penalty: \<open>calculateAndCreateSalesBonuses\<close>\<close>

text \<open>
  A line of the transaction object that \<open>create\<close> hands over: the stored line with the
  product row it includes.
\<close>

record SoldItem = TransactionItem +
  item_product :: "Product option"

text \<open>
  The rate chosen from the branch rate and the global rate (each 0 when the currency
  service failed): the first above 1, else the first that is not 0, else 1.
\<close>

definition usdToSomRate :: "rat \<Rightarrow> rat \<Rightarrow> rat" where
  "usdToSomRate usdToUzsRateBranch usdToUzsRateGlobal =
     (if usdToUzsRateBranch \<noteq> 0 \<and> usdToUzsRateBranch > 1 then usdToUzsRateBranch
      else if usdToUzsRateGlobal \<noteq> 0 \<and> usdToUzsRateGlobal > 1 then usdToUzsRateGlobal
      else if usdToUzsRateBranch \<noteq> 0 then usdToUzsRateBranch
      else if usdToUzsRateGlobal \<noteq> 0 then usdToUzsRateGlobal
      else 1)"

text \<open>\<open>Number(item.quantity || 1)\<close>\<close>

definition quantity_or_one :: "int \<Rightarrow> int" where
  "quantity_or_one q = (if q \<noteq> 0 then q else 1)"

text \<open>The value of one recorded bonus product, in the settlement currency.\<close>

definition bonus_product_value :: "Store \<Rightarrow> rat \<Rightarrow> TransactionBonusProduct \<Rightarrow> int" where
  "bonus_product_value s rate bonusProduct =
     (let productPriceInUzs =
            Math_round ((case products s (tbp_productId bonusProduct) of
                           None \<Rightarrow> 0
                         | Some p \<Rightarrow> prod_price p) * rate)
      in productPriceInUzs * tbp_quantity bonusProduct)"

text \<open>
  The fallback when no bonus product is recorded: the lines with a zero price count as
  giveaways.
\<close>

definition potentialBonusItems :: "SoldItem list \<Rightarrow> SoldItem list" where
  "potentialBonusItems items =
     filter (\<lambda>it. ((case item_sellingPrice it of Some sp \<Rightarrow> sp | None \<Rightarrow> item_price it) = 0
                    \<or> item_price it = 0)
                  \<and> item_productId it \<noteq> None) items"

definition fallback_item_value :: "Store \<Rightarrow> rat \<Rightarrow> SoldItem \<Rightarrow> int" where
  "fallback_item_value s rate bi =
     (let dbProduct = (case item_product bi of
                         Some p \<Rightarrow> Some p
                       | None \<Rightarrow> (if truthy (item_productId bi)
                                  then products s (or_zero (item_productId bi)) else None));
          unitCostUZS = (case dbProduct of
                           None \<Rightarrow> 0
                         | Some p \<Rightarrow> if prod_price p \<noteq> 0 then Math_round (prod_price p * rate)
                                     else 0)
      in unitCostUZS * quantity_or_one (item_quantity bi))"

definition fallback_rows :: "nat \<Rightarrow> SoldItem list \<Rightarrow> TransactionBonusProduct list" where
  "fallback_rows transactionId items =
     map (\<lambda>bi. \<lparr>tbp_transactionId = transactionId,
                 tbp_productId = or_zero (item_productId bi),
                 tbp_quantity = quantity_or_one (item_quantity bi)\<rparr>)
       (filter (\<lambda>bi. truthy (item_productId bi)) (potentialBonusItems items))"

definition totalBonusProductsValue :: "Store \<Rightarrow> rat \<Rightarrow> nat \<Rightarrow> SoldItem list \<Rightarrow> int" where
  "totalBonusProductsValue s rate transactionId items =
     (let bonusProducts =
            filter (\<lambda>bp. tbp_transactionId bp = transactionId) (transactionBonusProducts s)
      in if length bonusProducts > 0
         then foldl (\<lambda>sum bp. sum + bonus_product_value s rate bp) 0 bonusProducts
         else foldl (\<lambda>sum bi. sum + fallback_item_value s rate bi) 0
                (potentialBonusItems items))"

text \<open>What the first loop over the lines computes for one line.\<close>

record ItemDiff =
  diff_sellingPrice :: int
  diff_quantity :: int
  diff_bonusPercentage :: rat
  diff_costInUzs :: int
  diff_priceDifference :: int

definition item_diff :: "Store \<Rightarrow> rat \<Rightarrow> SoldItem \<Rightarrow> ItemDiff" where
  "item_diff s rate item =
     (let sellingPrice =
            (case item_sellingPrice item of
               Some rawSp \<Rightarrow>
                 if rawSp > 0 \<and> rawSp < max (rate / 2) 10000
                 then Math_round (rawSp * rate) else Math_round rawSp
             | None \<Rightarrow> Math_round (item_price item * rate));
          quantity = quantity_or_one (item_quantity item);
          bonusPercentage0 =
            (case item_product item of None \<Rightarrow> 0 | Some p \<Rightarrow> or_zero (prod_bonusPercentage p));
          dbProduct =
            (if (item_product item = None \<or> bonusPercentage0 = 0) \<and> truthy (item_productId item)
             then products s (or_zero (item_productId item)) else None);
          productInfo = (case dbProduct of Some d \<Rightarrow> Some d | None \<Rightarrow> item_product item);
          bonusPercentage =
            (case dbProduct of
               Some d \<Rightarrow> or_zero (prod_bonusPercentage d)
             | None \<Rightarrow> bonusPercentage0);
          costInUzs = (case productInfo of
                         None \<Rightarrow> 0
                       | Some p \<Rightarrow> if prod_price p \<noteq> 0 then Math_round (prod_price p * rate)
                                   else 0);
          priceDifference =
            (if sellingPrice > costInUzs \<and> bonusPercentage > 0
             then (sellingPrice - costInUzs) * quantity else 0)
      in \<lparr>diff_sellingPrice = sellingPrice, diff_quantity = quantity,
          diff_bonusPercentage = bonusPercentage, diff_costInUzs = costInUzs,
          diff_priceDifference = priceDifference\<rparr>)"

definition itemDiffs :: "Store \<Rightarrow> rat \<Rightarrow> SoldItem list \<Rightarrow> ItemDiff list" where
  "itemDiffs s rate items =
     filter (\<lambda>d. diff_priceDifference d > 0) (map (item_diff s rate) items)"

definition totalPriceDifferenceForTransaction :: "Store \<Rightarrow> rat \<Rightarrow> SoldItem list \<Rightarrow> int" where
  "totalPriceDifferenceForTransaction s rate items =
     foldl (\<lambda>sum d. sum + diff_priceDifference d) 0 (itemDiffs s rate items)"

definition totalSellingAll :: "Store \<Rightarrow> rat \<Rightarrow> SoldItem list \<Rightarrow> int" where
  "totalSellingAll s rate items =
     foldl (\<lambda>sum d. sum + diff_sellingPrice d * diff_quantity d) 0 (map (item_diff s rate) items)"

definition totalCostAll :: "Store \<Rightarrow> rat \<Rightarrow> SoldItem list \<Rightarrow> int" where
  "totalCostAll s rate items =
     foldl (\<lambda>sum d. sum + diff_costInUzs d * diff_quantity d) 0 (map (item_diff s rate) items)"

text \<open>
  The bonus amount of one contributing line: its share of the net pool, times its bonus
  percentage. The sums are whole numbers here, so the \<open>Math.round\<close> around them is the
  identity.
\<close>

definition bonusAmount :: "int \<Rightarrow> int \<Rightarrow> ItemDiff \<Rightarrow> int" where
  "bonusAmount totalPriceDifference transactionNetExtraPool info =
     (let share = (if totalPriceDifference > 0
                   then of_int (diff_priceDifference info) / of_int totalPriceDifference
                   else 0);
          netExtraAmount = Math_round (of_int transactionNetExtraPool * share)
      in Math_round (of_int netExtraAmount * (diff_bonusPercentage info / 100)))"

definition grossDiffAfterBonusCost :: "Store \<Rightarrow> rat \<Rightarrow> nat \<Rightarrow> SoldItem list \<Rightarrow> int" where
  "grossDiffAfterBonusCost s rate transactionId items =
     totalSellingAll s rate items
       - (totalCostAll s rate items + totalBonusProductsValue s rate transactionId items)"

text \<open>
  Modelled from the spec: \<open>BonusService.create\<close>, which is not part of the sources at
  hand; it stores the bonus record it is given.
\<close>

definition bonusService_create :: "Store \<Rightarrow> Bonus \<Rightarrow> Store" where
  "bonusService_create s bonusData = s\<lparr>bonuses := bonuses s @ [bonusData]\<rparr>"

text \<open>
  The second loop: one \<open>SALES_BONUS\<close> record for each contributing line whose bonus
  amount is positive.
\<close>

fun create_line_bonuses ::
  "Store \<Rightarrow> nat \<Rightarrow> nat option \<Rightarrow> nat \<Rightarrow> int \<Rightarrow> int \<Rightarrow> ItemDiff list \<Rightarrow> Store" where
  "create_line_bonuses s soldByUserId branchContextId transactionId totalDiff pool [] = s"
| "create_line_bonuses s soldByUserId branchContextId transactionId totalDiff pool (info # infos) =
     create_line_bonuses
       (if bonusAmount totalDiff pool info > 0
        then bonusService_create s
               \<lparr>bonus_userId = soldByUserId, bonus_branchId = branchContextId,
                bonus_amount = bonusAmount totalDiff pool info,
                bonus_reason = ''SALES_BONUS'',
                bonus_transactionId = Some transactionId\<rparr>
        else s)
       soldByUserId branchContextId transactionId totalDiff pool infos"

text \<open>
  \<open>calculateAndCreateSalesBonuses\<close> for the stored transaction \<open>transactionId\<close>, handed
  over as \<open>transaction\<close> with the lines \<open>items\<close>; the two rates are what the currency
  service answers for the branch and globally. The descriptions and the product
  snapshots of the bonus records are not modelled.
\<close>

definition calculateAndCreateSalesBonuses ::
  "Store \<Rightarrow> rat \<Rightarrow> rat \<Rightarrow> nat \<Rightarrow> Transaction \<Rightarrow> SoldItem list \<Rightarrow> nat \<Rightarrow> Store" where
  "calculateAndCreateSalesBonuses s usdToUzsRateBranch usdToUzsRateGlobal transactionId
       transaction items soldByUserId =
     (case users s soldByUserId of
        None \<Rightarrow> s
      | Some seller \<Rightarrow>
          (let branchContextId =
                 (if truthy (tx_fromBranchId transaction) then tx_fromBranchId transaction
                  else if truthy (tx_toBranchId transaction) then tx_toBranchId transaction
                  else if truthy (user_branchId seller) then user_branchId seller
                  else None);
               rate = usdToSomRate usdToUzsRateBranch usdToUzsRateGlobal;
               bonusProducts =
                 filter (\<lambda>bp. tbp_transactionId bp = transactionId) (transactionBonusProducts s);
               bonusValue = totalBonusProductsValue s rate transactionId items;
               s1 = (if length bonusProducts > 0 then s
                     else s\<lparr>transactionBonusProducts :=
                              transactionBonusProducts s @ fallback_rows transactionId items\<rparr>);
               totalDiff = totalPriceDifferenceForTransaction s rate items;
               transactionNetExtraPool = max 0 (totalDiff - bonusValue);
               s2 = create_line_bonuses s1 soldByUserId branchContextId transactionId
                      totalDiff transactionNetExtraPool (itemDiffs s rate items);
               grossDiff = grossDiffAfterBonusCost s rate transactionId items;
               s3 = update_transaction s2 transactionId
                      (\<lambda>t. t\<lparr>tx_extraProfit := Some (of_int grossDiff)\<rparr>)
           in if grossDiff < 0
              then bonusService_create s3
                     \<lparr>bonus_userId = soldByUserId, bonus_branchId = branchContextId,
                      bonus_amount = - \<bar>grossDiff\<bar>,
                      bonus_reason = ''SALES_PENALTY'',
                      bonus_transactionId = Some transactionId\<rparr>
              else s3))"

section \<open>The blended rate in the words of the specification\<close>



section \<open>The stock update in the words of the specification\<close>

text \<open>
  What one line does to the product it references: a sold line takes its quantity from
  the stock, floored at 0, and marks the product \<open>SOLD\<close> when nothing is left and
  \<open>IN_STORE\<close> otherwise; a purchased line adds its quantity and marks the product
  \<open>IN_WAREHOUSE\<close>.
\<close>

definition sold_line :: "Product \<Rightarrow> TransactionItem \<Rightarrow> Product" where
  "sold_line product item =
     product\<lparr>prod_quantity := max 0 (prod_quantity product - item_quantity item),
             prod_status := (if max 0 (prod_quantity product - item_quantity item) = 0
                             then SOLD else IN_STORE)\<rparr>"

definition purchased_line :: "Product \<Rightarrow> TransactionItem \<Rightarrow> Product" where
  "purchased_line product item =
     product\<lparr>prod_quantity := prod_quantity product + item_quantity item,
             prod_status := IN_WAREHOUSE\<rparr>"

section \<open>The payments breakdown in the words of the specification\<close>

text \<open>The sum of the breakdown as supplied, every entry counted.\<close>

definition breakdown_sum :: "PaymentBreakdownDto list \<Rightarrow> rat" where
  "breakdown_sum payments = (\<Sum>p\<leftarrow>payments. pb_amount p)"

text \<open>
  The entries the service counts: a positive amount and, upper-cased, one of the methods
  CASH, CARD, TERMINAL, TOVAR.
\<close>

definition valid_entry :: "PaymentBreakdownDto \<Rightarrow> bool" where
  "valid_entry p =
     (fl (pb_amount p) > 0
      \<and> toUpperCase (pb_method p) \<in> set [''CASH'', ''CARD'', ''TERMINAL'', ''TOVAR''])"

text \<open>The amounts of the counted entries, added up in the order given, in doubles.\<close>

definition valid_breakdown_sum :: "PaymentBreakdownDto list \<Rightarrow> rat" where
  "valid_breakdown_sum payments =
     foldl (\<lambda>sum p. fl (sum + fl (pb_amount p))) 0 (filter valid_entry payments)"

text \<open>
  The item total: price times quantity of each line, added up in the order of the
  lines, in doubles.
\<close>

definition item_total_sum :: "TransactionItem list \<Rightarrow> rat" where
  "item_total_sum items =
     foldl (\<lambda>sum item. fl (sum + fl (fl (item_price item) * of_int (item_quantity item))))
       0 items"

text \<open>
  The checks of \<open>create\<close> that come before the payments breakdown is looked at: the
  authenticated user exists, and \<open>upfrontPaymentType\<close>, when given, is CASH, CARD or
  TERMINAL.
\<close>

definition passes_earlier_checks :: "Store \<Rightarrow> CreateTransactionDto \<Rightarrow> nat option \<Rightarrow> bool" where
  "passes_earlier_checks s dto userId =
     ((truthy userId \<longrightarrow> users s (or_zero userId) \<noteq> None) \<and>
      (case ct_upfrontPaymentType dto of
         None \<Rightarrow> True
       | Some u \<Rightarrow> u = [] \<or> u \<in> set [''CASH'', ''CARD'', ''TERMINAL'']))"

section \<open>Example data\<close>

text \<open>
  A credit sale of 10 units at 100000 over 3 months at 10 percent, 200000 paid upfront,
  with one bonus product given away and one bonus row booked; the store around it.
\<close>

definition ex_item :: TransactionItem where
  "ex_item =
     \<lparr>item_productId = Some 1, item_quantity = 10, item_price = 100000,
      item_sellingPrice = Some 100000, item_originalPrice = Some 100000,
      item_total = Some 1000000, item_creditMonth = Some 3,
      item_creditPercent = Some (1 / 10), item_status = None\<rparr>"

text \<open>A second line without credit: its percent is 0.\<close>

definition ex_cash_item :: TransactionItem where
  "ex_cash_item =
     ex_item\<lparr>item_productId := Some 2, item_quantity := 2, item_price := 1000,
             item_creditPercent := Some 0, item_creditMonth := None\<rparr>"

definition ex_sale :: Transaction where
  "ex_sale =
     \<lparr>tx_type = SALE, tx_paymentType = Some CREDIT, tx_total = 1000000,
      tx_finalTotal = 1080000, tx_remainingBalance = 880000,
      tx_amountPaid = Some 200000, tx_downPayment = Some 200000,
      tx_extraProfit = Some 300, tx_termUnit = ''MONTHS'',
      tx_fromBranchId = Some 1, tx_toBranchId = None,
      tx_items = [ex_item],
      tx_paymentSchedules = createPaymentSchedule 7 [ex_item] 200000,
      tx_payments = []\<rparr>"

definition ex_product :: "rat \<Rightarrow> int \<Rightarrow> Product" where
  "ex_product p q =
     \<lparr>prod_price = p, prod_quantity = q, prod_defectiveQuantity = 0,
      prod_returnedQuantity = 0, prod_exchangedQuantity = 0, prod_status = IN_STORE,
      prod_bonusPercentage = Some 20, prod_branchId = Some 1\<rparr>"

definition ex_store :: Store where
  "ex_store =
     \<lparr>products = [1 \<mapsto> ex_product 80000 5, 2 \<mapsto> ex_product 1000 4],
      branches = [1 \<mapsto> \<lparr>cashBalance = 5000000\<rparr>],
      users = [1 \<mapsto> \<lparr>user_branchId = Some 1\<rparr>],
      transactions = [7 \<mapsto> ex_sale],
      transactionBonusProducts =
        [\<lparr>tbp_transactionId = 7, tbp_productId = 2, tbp_quantity = 1\<rparr>],
      bonuses =
        [\<lparr>bonus_userId = 1, bonus_branchId = Some 1, bonus_amount = 40000,
          bonus_reason = ''SALES_BONUS'', bonus_transactionId = Some 7\<rparr>],
      defectiveLogs = []\<rparr>"

text \<open>The same sale after everything was returned, its schedule rows still stored.\<close>

definition ex_returned_sale :: Transaction where
  "ex_returned_sale =
     ex_sale\<lparr>tx_items :=
               [ex_item\<lparr>item_quantity := 0, item_total := Some 0,
                        item_status := Some ''RETURNED''\<rparr>]\<rparr>"

definition ex_returned_store :: Store where
  "ex_returned_store = ex_store\<lparr>transactions := [7 \<mapsto> ex_returned_sale]\<rparr>"

text \<open>The customer returns 5 of the 10 units of the sale.\<close>

definition ex_return :: CreateDefectiveLogDto where
  "ex_return =
     \<lparr>dto_productId = 1, dto_quantity = 5, dto_userId = Some 1, dto_branchId = Some 1,
      dto_actionType = Some ''RETURN'', dto_isFromSale = True,
      dto_transactionId = Some 7, dto_cashAdjustmentDirection = None,
      dto_cashAmount = None, dto_exchangeWithProductId = None,
      dto_replacementQuantity = None, dto_replacementUnitPrice = None,
      dto_handledByUserId = None\<rparr>"

text \<open>A sale of the two example lines.\<close>

definition ex_sale_of_two :: Transaction where
  "ex_sale_of_two = ex_sale\<lparr>tx_items := [ex_item, ex_cash_item]\<rparr>"

text \<open>
  A cash sale of the example line, total 1000000, paid 600000 in cash and 400000 by a
  method the service does not know.
\<close>

definition ex_cash_dto :: CreateTransactionDto where
  "ex_cash_dto =
     \<lparr>ct_userId = Some 1, ct_soldByUserId = Some 1, ct_fromBranchId = Some 1,
      ct_toBranchId = None, ct_type = SALE, ct_paymentType = Some CASH,
      ct_downPayment = None, ct_amountPaid = None, ct_upfrontPaymentType = None,
      ct_termUnit = None, ct_items = [ex_item],
      ct_payments = Some [\<lparr>pb_method = ''cash'', pb_amount = 600000\<rparr>,
                          \<lparr>pb_method = ''CLICK'', pb_amount = 400000\<rparr>]\<rparr>"

text \<open>The same sale paid 600000 in cash and 400000 by card.\<close>

definition ex_card_dto :: CreateTransactionDto where
  "ex_card_dto =
     ex_cash_dto\<lparr>ct_payments := Some [\<lparr>pb_method = ''cash'', pb_amount = 600000\<rparr>,
                                        \<lparr>pb_method = ''CARD'', pb_amount = 400000\<rparr>]\<rparr>"

text \<open>
  A sale of two lines, as handed to the bonus calculation: product 1 (cost 80000, bonus
  20 percent) sold once at 100000, product 2 (cost 1000) sold 100 times at 500.
\<close>

definition ex_sold_items :: "SoldItem list" where
  "ex_sold_items =
     [\<lparr>item_productId = Some 1, item_quantity = 1, item_price = 80000,
       item_sellingPrice = Some 100000, item_originalPrice = Some 80000,
       item_total = Some 100000, item_creditMonth = None, item_creditPercent = None,
       item_status = None, item_product = Some (ex_product 80000 5)\<rparr>,
      \<lparr>item_productId = Some 2, item_quantity = 100, item_price = 1000,
       item_sellingPrice = Some 500, item_originalPrice = Some 1000,
       item_total = Some 50000, item_creditMonth = None, item_creditPercent = None,
       item_status = None, item_product = Some (ex_product 1000 4)\<rparr>]"

definition ex_mixed_sale :: Transaction where
  "ex_mixed_sale =
     \<lparr>tx_type = SALE, tx_paymentType = Some CASH, tx_total = 180000,
      tx_finalTotal = 180000, tx_remainingBalance = 180000,
      tx_amountPaid = None, tx_downPayment = None,
      tx_extraProfit = None, tx_termUnit = ''MONTHS'',
      tx_fromBranchId = Some 1, tx_toBranchId = None,
      tx_items = map (\<lambda>i. TransactionItem.truncate i) ex_sold_items,
      tx_paymentSchedules = [], tx_payments = []\<rparr>"

definition ex_mixed_store :: Store where
  "ex_mixed_store = ex_store\<lparr>transactions := [9 \<mapsto> ex_mixed_sale], bonuses := []\<rparr>"

text \<open>Later the customer returns 2 more units of the same sale.\<close>

definition ex_return_again :: CreateDefectiveLogDto where
  "ex_return_again = ex_return\<lparr>dto_quantity := 2\<rparr>"

text \<open>
  A credit sale of one unit at 100 over 6 months, without interest and without upfront
  payment, and the store that holds it.
\<close>

definition ex_hundred :: TransactionItem where
  "ex_hundred =
     \<lparr>item_productId = Some 1, item_quantity = 1, item_price = 100,
      item_sellingPrice = Some 100, item_originalPrice = Some 100,
      item_total = Some 100, item_creditMonth = Some 6,
      item_creditPercent = None, item_status = None\<rparr>"

definition ex_hundred_sale :: Transaction where
  "ex_hundred_sale =
     \<lparr>tx_type = SALE, tx_paymentType = Some CREDIT, tx_total = 100,
      tx_finalTotal = 100, tx_remainingBalance = 100,
      tx_amountPaid = None, tx_downPayment = None,
      tx_extraProfit = None, tx_termUnit = ''MONTHS'',
      tx_fromBranchId = Some 1, tx_toBranchId = None,
      tx_items = [ex_hundred],
      tx_paymentSchedules = [],
      tx_payments = []\<rparr>"

definition ex_hundred_store :: Store where
  "ex_hundred_store = ex_store\<lparr>transactions := [7 \<mapsto> ex_hundred_sale]\<rparr>"

text \<open>
  A cash sale of 50 units at 0.29, paid 15 in cash; the price is read as the double
  nearest to 0.29.
\<close>

definition ex_decimal_dto :: CreateTransactionDto where
  "ex_decimal_dto =
     ex_cash_dto\<lparr>ct_items := [ex_item\<lparr>item_quantity := 50, item_price := 29 / 100,
                                       item_total := None, item_creditMonth := None,
                                       item_creditPercent := None\<rparr>],
                 ct_payments := Some [\<lparr>pb_method = ''CASH'', pb_amount = 15\<rparr>]\<rparr>"

text \<open>
  The example cash sale paid in full by one entry whose method is ``cash'' written with
  a long s (U+017F, the bytes C5 BF) in place of the s.
\<close>

definition ex_long_s_dto :: CreateTransactionDto where
  "ex_long_s_dto =
     ex_cash_dto\<lparr>ct_payments :=
       Some [\<lparr>pb_method = ''ca'' @ [CHR 0xC5, CHR 0xBF] @ ''h'', pb_amount = 1000000\<rparr>]\<rparr>"

section \<open>Rounding to a double\<close>

text \<open>Powers of two and the number of binary digits.\<close>

lemma pow2_nonneg: "0 \<le> e \<Longrightarrow> pow2 e = 2 ^ nat e"
proof (induction e rule: pow2.induct)
  case (1 e)
  show ?case
  proof (cases "e = 0")
    case True
    then show ?thesis by (simp add: pow2.simps [of 0])
  next
    case False
    with 1 have pos: "0 < e" by simp
    then have h: "pow2 (e div 2) = 2 ^ nat (e div 2)"
      using "1.IH"(2) by simp
    have e: "e = 2 * (e div 2) + e mod 2" by simp
    show ?thesis
    proof (cases "even e")
      case True
      then have "nat e = nat (e div 2) + nat (e div 2)" using pos by auto
      then show ?thesis
        using pos True h by (simp add: pow2.simps [of e] Let_def flip: power_add)
    next
      case False
      then have "nat e = Suc (nat (e div 2) + nat (e div 2))" using pos by (auto elim!: oddE)
      then show ?thesis
        using pos False h by (simp add: pow2.simps [of e] Let_def flip: power_add)
    qed
  qed
qed

lemma pow2_powi: "pow2 e = 2 powi e"
proof (cases "0 \<le> e")
  case True
  then show ?thesis by (simp add: pow2_nonneg power_int_def)
next
  case False
  then have "pow2 e = 1 / pow2 (- e)" by (simp add: pow2.simps [of e])
  with False show ?thesis by (simp add: pow2_nonneg power_int_def field_simps)
qed

lemma bits_nonneg: "0 \<le> bits n"
proof (induction n rule: bits.induct)
  case (1 n)
  then show ?case by (cases "n \<le> 0") (simp_all add: bits.simps [of n])
qed

lemma bits_pos: "0 < n \<Longrightarrow> 0 < bits n"
  using bits_nonneg [of "n div 2"] by (simp add: bits.simps [of n])

lemma bits_bounds: "0 < n \<Longrightarrow> 2 ^ nat (bits n - 1) \<le> n \<and> n < 2 ^ nat (bits n)"
proof (induction n rule: bits.induct)
  case (1 n)
  show ?case
  proof (cases "n = 1")
    case True
    then show ?thesis by (simp add: bits.simps [of 1] bits.simps [of 0])
  next
    case False
    with "1.prems" have h: "0 < n div 2" by simp
    have b: "bits n = 1 + bits (n div 2)" using "1.prems" by (simp add: bits.simps [of n])
    from "1.IH" h "1.prems" have
      ih: "2 ^ nat (bits (n div 2) - 1) \<le> n div 2" "n div 2 < 2 ^ nat (bits (n div 2))"
      by simp_all
    have p: "0 < bits (n div 2)" using h by (rule bits_pos)
    then have e1: "nat (bits n - 1) = Suc (nat (bits (n div 2) - 1))" using b by simp
    have e2: "nat (bits n) = Suc (nat (bits (n div 2)))" using b p by simp
    show ?thesis
      unfolding e1 e2 using ih by simp linarith
  qed
qed

lemma pow2_pos: "0 < pow2 e"
  by (simp add: pow2_powi)

lemma pow2_add: "pow2 (a + b) = pow2 a * pow2 b"
  by (simp add: pow2_powi power_int_add)

lemma pow2_diff: "pow2 (a - b) = pow2 a / pow2 b"
  by (simp add: pow2_powi power_int_diff)

lemma binade_bounds:
  assumes "x \<noteq> 0"
  shows "pow2 (binade x) \<le> \<bar>x\<bar> \<and> \<bar>x\<bar> < pow2 (binade x + 1)"
proof -
  obtain p q where pq: "quotient_of \<bar>x\<bar> = (p, q)" by (cases "quotient_of \<bar>x\<bar>")
  then have q: "0 < q" and x: "\<bar>x\<bar> = of_int p / of_int q"
    by (auto dest: quotient_of_denom_pos quotient_of_div)
  have "0 < (of_int p :: rat) / of_int q"
    using assms by (simp flip: x)
  then have p: "0 < p"
    using q by (simp add: zero_less_divide_iff)
  let ?bp = "bits p" and ?bq = "bits q"
  from bits_bounds [OF p] have bp: "2 ^ nat (?bp - 1) \<le> p" "p < 2 ^ nat ?bp" by simp_all
  from bits_bounds [OF q] have bq: "2 ^ nat (?bq - 1) \<le> q" "q < 2 ^ nat ?bq" by simp_all
  have pp: "0 < ?bp" "0 < ?bq" using p q by (simp_all add: bits_pos)
  have P1: "pow2 (?bp - 1) \<le> of_int p"
  proof -
    have "(of_int (2 ^ nat (?bp - 1)) :: rat) \<le> of_int p"
      using bp(1) by (simp only: of_int_le_iff)
    then show ?thesis using pp by (simp add: pow2_nonneg)
  qed
  have P2: "of_int p < pow2 ?bp"
  proof -
    have "(of_int p :: rat) < of_int (2 ^ nat ?bp)"
      using bp(2) by (simp only: of_int_less_iff)
    then show ?thesis using pp by (simp add: pow2_nonneg)
  qed
  have Q1: "pow2 (?bq - 1) \<le> of_int q"
  proof -
    have "(of_int (2 ^ nat (?bq - 1)) :: rat) \<le> of_int q"
      using bq(1) by (simp only: of_int_le_iff)
    then show ?thesis using pp by (simp add: pow2_nonneg)
  qed
  have Q2: "of_int q < pow2 ?bq"
  proof -
    have "(of_int q :: rat) < of_int (2 ^ nat ?bq)"
      using bq(2) by (simp only: of_int_less_iff)
    then show ?thesis using pp by (simp add: pow2_nonneg)
  qed
  have lo: "pow2 (?bp - ?bq - 1) < \<bar>x\<bar>"
  proof -
    have "pow2 (?bp - ?bq - 1) = pow2 (?bp - 1) / pow2 ?bq"
      using pow2_diff [of "?bp - 1" ?bq] by (simp add: algebra_simps)
    also have "\<dots> < of_int p / of_int q"
      using P1 Q2 q pow2_pos [of "?bp - 1"]
      by (intro frac_less2) simp_all
    finally show ?thesis by (simp add: x)
  qed
  have hi: "\<bar>x\<bar> < pow2 (?bp - ?bq + 1)"
  proof -
    have "of_int p / of_int q < pow2 ?bp / pow2 (?bq - 1)"
      using P2 Q1 p q pow2_pos [of "?bq - 1"]
      by (intro frac_less) simp_all
    also have "\<dots> = pow2 (?bp - ?bq + 1)"
      using pow2_diff [of ?bp "?bq - 1"] by (simp add: algebra_simps)
    finally show ?thesis by (simp add: x)
  qed
  show ?thesis
    using lo hi by (auto simp: binade_def pq Let_def not_le less_imp_le)
qed

lemma round_even_error: "\<bar>of_int (round_even y) - y\<bar> \<le> 1 / 2"
proof -
  have "of_int \<lfloor>y\<rfloor> \<le> y" "y < of_int \<lfloor>y\<rfloor> + 1" by linarith+
  then show ?thesis
    by (auto simp: round_even_def Let_def abs_le_iff)
qed

lemma fl_error: "\<bar>fl x - x\<bar> \<le> \<bar>x\<bar> / 2 ^ 53 + pow2 (- 1075)"
proof (cases "x = 0")
  case True
  then show ?thesis using pow2_pos [of "- 1075"] by (simp add: fl_def)
next
  case False
  define e where "e = max (binade x) (- 1022)"
  define q where "q = pow2 (e - 52)"
  have qpos: "0 < q" by (simp add: q_def pow2_pos)
  have flx: "fl x = of_int (round_even (x / q)) * q"
    using False by (simp add: fl_def Let_def e_def q_def)
  have "fl x - x = (of_int (round_even (x / q)) - x / q) * q"
    using qpos by (simp add: flx field_simps)
  then have "\<bar>fl x - x\<bar> = \<bar>of_int (round_even (x / q)) - x / q\<bar> * q"
    using qpos by (simp add: abs_mult)
  also have "\<dots> \<le> (1 / 2) * q"
    using round_even_error [of "x / q"] qpos by (intro mult_right_mono) simp_all
  also have "\<dots> = pow2 (e - 53)"
    using pow2_diff [of "e - 52" 1] by (simp add: q_def pow2.simps [of 1] pow2.simps [of 0])
  finally have b: "\<bar>fl x - x\<bar> \<le> pow2 (e - 53)" .
  show ?thesis
  proof (cases "- 1022 \<le> binade x")
    case True
    then have "e = binade x" by (simp add: e_def)
    then have "pow2 (e - 53) = pow2 (binade x) / 2 ^ 53"
      using pow2_diff [of "binade x" 53] by (simp add: pow2_nonneg)
    also have "\<dots> \<le> \<bar>x\<bar> / 2 ^ 53"
      using binade_bounds [OF False] by (simp add: divide_right_mono)
    finally have "\<bar>fl x - x\<bar> \<le> \<bar>x\<bar> / 2 ^ 53" using b by simp
    moreover have "0 \<le> pow2 (- 1075)" using pow2_pos [of "- 1075"] by simp
    ultimately show ?thesis by linarith
  next
    case False
    then have "e = - 1022" by (simp add: e_def)
    then have "\<bar>fl x - x\<bar> \<le> pow2 (- 1075)" using b by simp
    moreover have "0 \<le> \<bar>x\<bar> / 2 ^ 53" by simp
    ultimately show ?thesis by linarith
  qed
qed


lemma fl_zero: "fl 0 = 0"
  by (simp add: fl_def)

lemma pow2_strict_mono:
  assumes "a < b"
  shows "pow2 a < pow2 b"
proof -
  have "pow2 b = pow2 a * pow2 (b - a)" using pow2_add [of a "b - a"] by simp
  moreover have "(1::rat) < 2 ^ nat (b - a)"
    using assms by (intro one_less_power) simp_all
  then have "1 < pow2 (b - a)" using assms by (simp add: pow2_nonneg)
  ultimately show ?thesis using pow2_pos [of a] by simp
qed

lemma pow2_less_iff: "pow2 a < pow2 b \<longleftrightarrow> a < b"
  using pow2_strict_mono [of a b] pow2_strict_mono [of b a]
  by (cases a b rule: linorder_cases) auto

lemma round_even_of_int: "round_even (of_int k) = k"
  by (simp add: round_even_def)

lemma round_even_bound:
  assumes "\<bar>t\<bar> \<le> of_int N"
  shows "\<bar>round_even t\<bar> \<le> N"
proof -
  have lo: "- N \<le> \<lfloor>t\<rfloor>" using assms by (simp add: le_floor_iff abs_le_iff)
  have hi: "\<lfloor>t\<rfloor> \<le> N" using assms by (simp add: floor_le_iff abs_le_iff)
  have up: "\<lfloor>t\<rfloor> + 1 \<le> N" if "1 / 2 \<le> t - of_int \<lfloor>t\<rfloor>"
  proof -
    have "of_int \<lfloor>t\<rfloor> < (of_int N :: rat)" using that assms by (simp add: abs_le_iff)
    then show ?thesis by simp
  qed
  show ?thesis
    using lo hi up by (auto simp: round_even_def Let_def abs_le_iff not_less)
qed

lemma binade_unique:
  assumes "pow2 b \<le> \<bar>x\<bar>" "\<bar>x\<bar> < pow2 (b + 1)"
  shows "binade x = b"
proof -
  have x: "x \<noteq> 0" using assms(1) pow2_pos [of b] by auto
  from binade_bounds [OF x] have c: "pow2 (binade x) \<le> \<bar>x\<bar>" "\<bar>x\<bar> < pow2 (binade x + 1)"
    by simp_all
  have "pow2 b < pow2 (binade x + 1)" using assms(1) c(2) by linarith
  moreover have "pow2 (binade x) < pow2 (b + 1)" using assms(2) c(1) by linarith
  ultimately show ?thesis by (simp add: pow2_less_iff)
qed

lemma fl_multiple:
  assumes e: "- 1022 \<le> e" and y: "y = of_int m * pow2 (e - 52)" and m: "\<bar>m\<bar> \<le> 2 ^ 53"
  shows "fl y = y"
proof (cases "m = 0")
  case True
  then show ?thesis by (simp add: y fl_def)
next
  case False
  let ?q = "pow2 (e - 52)"
  have qpos: "0 < ?q" by (rule pow2_pos)
  have y0: "y \<noteq> 0" using False qpos by (simp add: y)
  have ay: "\<bar>y\<bar> = of_int \<bar>m\<bar> * ?q" using qpos by (simp add: y abs_mult)
  define b where "b = binade y"
  from binade_bounds [OF y0] have bb: "pow2 b \<le> \<bar>y\<bar>" "\<bar>y\<bar> < pow2 (b + 1)"
    by (simp_all add: b_def)
  define e' where "e' = max b (- 1022)"
  have fly: "fl y = of_int (round_even (y / pow2 (e' - 52))) * pow2 (e' - 52)"
    using y0 by (simp add: fl_def Let_def e'_def b_def)
  have top: "pow2 (e + 1) = 2 ^ 53 * ?q"
  proof -
    have "e + 1 = (e - 52) + 53" by simp
    then have "pow2 (e + 1) = pow2 (e - 52) * pow2 53" by (simp only: pow2_add)
    then show ?thesis by (simp add: pow2_nonneg)
  qed
  have "\<exists>k. y / pow2 (e' - 52) = of_int k"
  proof (cases "\<bar>m\<bar> = 2 ^ 53")
    case True
    then have "\<bar>y\<bar> = pow2 (e + 1)" by (simp add: ay top)
    then have "binade y = e + 1"
      using pow2_strict_mono [of "e + 1" "e + 1 + 1"] by (intro binade_unique) simp_all
    then have e': "e' = e + 1" using e by (simp add: e'_def b_def)
    have "pow2 (e' - 52) = 2 * ?q"
      using pow2_add [of 1 "e - 52"] by (simp add: e' pow2_nonneg)
    moreover have "m = 2 ^ 53 \<or> m = - (2 ^ 53)" using True by (auto simp: abs_if split: if_splits)
    ultimately show ?thesis
      using qpos by (auto simp: y intro: exI [of _ "2 ^ 52"] exI [of _ "- (2 ^ 52)"])
  next
    case False
    with m have "\<bar>m\<bar> < 2 ^ 53" by simp
    then have "(of_int \<bar>m\<bar> :: rat) < of_int (2 ^ 53)" by (simp only: of_int_less_iff)
    then have "\<bar>y\<bar> < pow2 (e + 1)" using qpos by (simp add: ay top)
    then have "pow2 b < pow2 (e + 1)" using bb(1) by linarith
    then have "b \<le> e" by (simp add: pow2_less_iff)
    then have le: "e' \<le> e" using e by (simp add: e'_def)
    have "?q = pow2 (e - e') * pow2 (e' - 52)"
      using pow2_add [of "e - e'" "e' - 52"] by simp
    then have "y / pow2 (e' - 52) = of_int m * pow2 (e - e')"
      using pow2_pos [of "e' - 52"] by (simp add: y)
    also have "\<dots> = of_int (m * 2 ^ nat (e - e'))" using le by (simp add: pow2_nonneg)
    finally show ?thesis by blast
  qed
  then obtain k where k: "y / pow2 (e' - 52) = of_int k" by blast
  then have "y = of_int k * pow2 (e' - 52)"
    using pow2_pos [of "e' - 52"] by (simp add: field_simps)
  then show ?thesis unfolding fly k round_even_of_int by simp
qed

lemma fl_idem: "fl (fl x) = fl x"
proof (cases "x = 0")
  case True
  then show ?thesis by (simp add: fl_def)
next
  case False
  define e where "e = max (binade x) (- 1022)"
  let ?q = "pow2 (e - 52)"
  have qpos: "0 < ?q" by (rule pow2_pos)
  have flx: "fl x = of_int (round_even (x / ?q)) * ?q"
    using False by (simp add: fl_def Let_def e_def)
  have top: "pow2 (e + 1) = 2 ^ 53 * ?q"
  proof -
    have "e + 1 = (e - 52) + 53" by simp
    then have "pow2 (e + 1) = pow2 (e - 52) * pow2 53" by (simp only: pow2_add)
    then show ?thesis by (simp add: pow2_nonneg)
  qed
  have "\<bar>x\<bar> < pow2 (binade x + 1)" using binade_bounds [OF False] by simp
  also have "\<dots> \<le> pow2 (e + 1)"
    using pow2_strict_mono [of "binade x + 1" "e + 1"]
    by (cases "binade x + 1 = e + 1") (simp_all add: e_def less_imp_le)
  finally have "\<bar>x\<bar> < 2 ^ 53 * ?q" by (simp add: top)
  then have "\<bar>x / ?q\<bar> \<le> of_int (2 ^ 53)"
    using qpos by (simp add: abs_divide field_simps)
  then have "\<bar>round_even (x / ?q)\<bar> \<le> 2 ^ 53" by (rule round_even_bound)
  then show ?thesis
    using fl_multiple [of e "fl x" "round_even (x / ?q)"] by (simp add: flx e_def)
qed

lemma fl_of_int:
  assumes "\<bar>k\<bar> \<le> 2 ^ 53"
  shows "fl (of_int k) = of_int k"
  using fl_multiple [of 52 "of_int k" k] assms by (simp add: pow2.simps [of 0])

lemma fl_samples:
  "fl (1 / 10) = 3602879701896397 / 2 ^ 55"
  "fl (29 / 100) = 5224175567749775 / 2 ^ 54"
  "fl (fl (29 / 100) * 50) = 29 / 2 - 1 / 2 ^ 49"
  "fl (100 / 6) = 4691249611844267 / 2 ^ 48"
  "fl (2 ^ 53 + 1) = 2 ^ 53"
  "fl (2 ^ 53 + 3) = 2 ^ 53 + 4"
  "fl (- (1 / 3)) = - (6004799503160661 / 2 ^ 54)"
  by code_simp+

section \<open>The rows of a monthly schedule\<close>

lemma monthly_rows_length:
  "length (monthly_rows t months mp month rb) = nat (months + 1 - month)"
proof (induction t months mp month rb rule: monthly_rows.induct)
  case (1 t months mp month rb)
  show ?case
  proof (cases "month \<le> months")
    case True
    then show ?thesis
      using 1 by (simp add: monthly_rows.simps [of t months mp month] Let_def
                    nat_diff_distrib flip: Suc_nat_eq_nat_zadd1)
  next
    case False
    then show ?thesis by (simp add: monthly_rows.simps [of t months mp month])
  qed
qed

lemma rows_d_step:
  fixes R mp rb B eps u :: rat and month months :: int
  assumes m: "1 \<le> month" "month < months" "of_int months - 1 \<le> (2::rat) ^ 52"
    and u: "0 \<le> u"
    and B: "B = \<bar>R\<bar> + of_int months * \<bar>mp\<bar>"
    and eps: "eps = B / 2 ^ 52 + 2 * u"
    and inv: "\<bar>rb - (R - of_int (month - 1) * mp)\<bar> \<le> of_int (month - 1) * eps"
    and err: "\<bar>rb' - (rb - mp)\<bar> \<le> \<bar>rb - mp\<bar> / 2 ^ 53 + u"
  shows "\<bar>rb' - (R - of_int month * mp)\<bar> \<le> of_int month * eps"
proof -
  define k :: rat where "k = of_int (month - 1)"
  define d where "d = rb - (R - k * mp)"
  have k0: "0 \<le> k" and k1: "k + 1 = of_int month" and k52: "k \<le> 2 ^ 52"
    using m by (simp_all add: k_def)
  have B0: "0 \<le> B" using m by (simp add: B)
  have e0: "0 \<le> eps" using B0 u by (simp add: eps)
  have dk: "\<bar>d\<bar> \<le> k * eps" using inv by (simp add: d_def k_def)
  have I: "\<bar>R - (k + 1) * mp\<bar> \<le> B"
  proof -
    have "\<bar>R - (k + 1) * mp\<bar> \<le> \<bar>R\<bar> + \<bar>(k + 1) * mp\<bar>" by (rule abs_triangle_ineq4)
    also have "\<bar>(k + 1) * mp\<bar> = (k + 1) * \<bar>mp\<bar>" using k0 by (simp add: abs_mult)
    also have "(k + 1) * \<bar>mp\<bar> \<le> of_int months * \<bar>mp\<bar>"
      using m by (intro mult_right_mono) (simp_all add: k1)
    finally show ?thesis by (simp add: B)
  qed
  have x: "rb - mp = (R - (k + 1) * mp) + d" by (simp add: d_def algebra_simps)
  have ax: "\<bar>rb - mp\<bar> \<le> B + \<bar>d\<bar>" unfolding x using I abs_triangle_ineq [of "R - (k + 1) * mp" d] by linarith
  have "rb' - (R - (k + 1) * mp) = (rb' - (rb - mp)) + d" by (simp add: d_def algebra_simps)
  then have "\<bar>rb' - (R - (k + 1) * mp)\<bar> \<le> \<bar>rb' - (rb - mp)\<bar> + \<bar>d\<bar>"
    using abs_triangle_ineq [of "rb' - (rb - mp)" d] by simp
  also have "\<dots> \<le> (B + \<bar>d\<bar>) / 2 ^ 53 + u + \<bar>d\<bar>"
    using err ax by (simp add: divide_right_mono add_mono order_trans [OF err])
  also have "\<dots> \<le> (B + k * eps) / 2 ^ 53 + u + k * eps"
    using dk by (simp add: divide_right_mono add_mono)
  also have "\<dots> \<le> (k + 1) * eps"
  proof -
    have "k * eps \<le> 2 ^ 52 * eps" using k52 e0 by (rule mult_right_mono)
    also have "\<dots> = B + 2 ^ 53 * u" by (simp add: eps algebra_simps)
    finally have "k * eps / 2 ^ 53 \<le> (B + 2 ^ 53 * u) / 2 ^ 53" by (simp add: divide_right_mono)
    then have "(B + k * eps) / 2 ^ 53 + u \<le> (B + (B + 2 ^ 53 * u)) / 2 ^ 53 + u"
      by (simp add: add_divide_distrib)
    also have "\<dots> = eps" by (simp add: eps add_divide_distrib)
    finally show ?thesis by (simp add: algebra_simps)
  qed
  finally show ?thesis by (simp add: k1)
qed

lemma monthly_rows_d_length:
  "length (monthly_rows_d t months mp month rb) = nat (months + 1 - month)"
proof (induction t months mp month rb rule: monthly_rows_d.induct)
  case (1 t months mp month rb)
  show ?case
  proof (cases "month \<le> months")
    case True
    then show ?thesis
      using 1 by (simp add: monthly_rows_d.simps [of t months mp month] Let_def
                    nat_diff_distrib flip: Suc_nat_eq_nat_zadd1)
  next
    case False
    then show ?thesis by (simp add: monthly_rows_d.simps [of t months mp month])
  qed
qed

lemma monthly_rows_d_last:
  "month \<le> months \<Longrightarrow>
   monthly_rows_d t months mp month rb \<noteq> [] \<and>
   ps_remainingBalance (last (monthly_rows_d t months mp month rb)) = 0"
proof (induction t months mp month rb rule: monthly_rows_d.induct)
  case (1 t months mp month rb)
  show ?case
  proof (cases "month = months")
    case True
    then show ?thesis
      by (simp add: monthly_rows_d.simps [of t months mp months]
            monthly_rows_d.simps [of t months mp "months + 1"] fl_zero)
  next
    case False
    with "1.prems" have lt: "month + 1 \<le> months" by simp
    have "monthly_rows_d t months mp (month + 1) (fl (rb - mp)) \<noteq> [] \<and>
      ps_remainingBalance (last (monthly_rows_d t months mp (month + 1) (fl (rb - mp)))) = 0"
      using "1.IH" [OF "1.prems" refl refl lt] False by simp
    then show ?thesis
      using False "1.prems" by (simp add: monthly_rows_d.simps [of t months mp month] Let_def)
  qed
qed

lemma monthly_rows_d_sum:
  fixes R mp rb :: rat
  assumes "1 \<le> month" "month \<le> months" "of_int months - 1 \<le> (2::rat) ^ 52"
    and "\<bar>rb - (R - of_int (month - 1) * mp)\<bar>
           \<le> of_int (month - 1) * ((\<bar>R\<bar> + of_int months * \<bar>mp\<bar>) / 2 ^ 52 + 2 * pow2 (- 1075))"
  shows "\<bar>sum_list (map ps_payment (monthly_rows_d t months mp month rb))
            - (R - of_int (month - 1) * mp)\<bar>
           \<le> of_int (months - 1) * ((\<bar>R\<bar> + of_int months * \<bar>mp\<bar>) / 2 ^ 52 + 2 * pow2 (- 1075))"
  using assms
proof (induction t months mp month rb rule: monthly_rows_d.induct)
  case (1 t months mp month rb)
  let ?eps = "(\<bar>R\<bar> + of_int months * \<bar>mp\<bar>) / 2 ^ 52 + 2 * pow2 (- 1075)"
  show ?case
  proof (cases "month = months")
    case True
    have "sum_list (map ps_payment (monthly_rows_d t months mp months rb)) = rb"
      by (simp add: monthly_rows_d.simps [of t months mp months]
            monthly_rows_d.simps [of t months mp "months + 1"])
    then show ?thesis using "1.prems"(4) True by simp
  next
    case False
    with "1.prems" have lt: "month < months" and le: "month + 1 \<le> months" by simp_all
    have u: "(0::rat) \<le> pow2 (- 1075)" using pow2_pos [of "- 1075"] by simp
    have step: "\<bar>fl (rb - mp) - (R - of_int month * mp)\<bar> \<le> of_int month * ?eps"
      using "1.prems"(1) lt "1.prems"(3) u refl refl "1.prems"(4) fl_error [of "rb - mp"]
      by (rule rows_d_step)
    have "\<bar>sum_list (map ps_payment (monthly_rows_d t months mp (month + 1) (fl (rb - mp))))
            - (R - of_int (month + 1 - 1) * mp)\<bar> \<le> of_int (months - 1) * ?eps"
      using "1.IH" [OF "1.prems"(2) refl refl] "1.prems"(1) le "1.prems"(3) step False
      by simp
    moreover have "sum_list (map ps_payment (monthly_rows_d t months mp month rb))
        = mp + sum_list (map ps_payment (monthly_rows_d t months mp (month + 1) (fl (rb - mp))))"
      using False "1.prems"(2) by (simp add: monthly_rows_d.simps [of t months mp month] Let_def)
    ultimately show ?thesis by (simp add: algebra_simps)
  qed
qed

lemma recalc_rows_d_payments:
  "map ps_payment (recalc_rows_d t months mp month rb)
     = map ps_payment (monthly_rows_d t months mp month rb) \<and>
   map ps_remainingBalance (recalc_rows_d t months mp month rb)
     = map ps_remainingBalance (monthly_rows_d t months mp month rb)"
proof (induction t months mp month rb rule: monthly_rows_d.induct)
  case (1 t months mp month rb)
  show ?case
  proof (cases "month \<le> months")
    case True
    then show ?thesis
      using 1 by (simp add: monthly_rows_d.simps [of t months mp month]
                    recalc_rows_d.simps [of t months mp month] Let_def)
  next
    case False
    then show ?thesis
      by (simp add: monthly_rows_d.simps [of t months mp month]
            recalc_rows_d.simps [of t months mp month])
  qed
qed

lemma pow2_1073: "pow2 (- 1073) = 4 * pow2 (- 1075)"
  using pow2_add [of "- 1075" 2] by (simp add: pow2_nonneg)

lemma eps_bound:
  fixes R mp u :: rat and months :: int
  assumes n: "1 \<le> months" "of_int months - 1 \<le> (2::rat) ^ 52"
    and u: "0 \<le> u"
    and mp: "\<bar>mp - R / of_int months\<bar> \<le> \<bar>R / of_int months\<bar> / 2 ^ 53 + u"
  shows "(\<bar>R\<bar> + of_int months * \<bar>mp\<bar>) / 2 ^ 52 + 2 * u \<le> \<bar>R\<bar> / 2 ^ 50 + 4 * u"
proof -
  define n :: rat where "n = of_int months"
  have n1: "1 \<le> n" and n52: "n \<le> 2 ^ 52 + 1" using n by (simp_all add: n_def)
  have "\<bar>mp\<bar> \<le> \<bar>R / n\<bar> + \<bar>mp - R / n\<bar>"
    using abs_triangle_ineq [of "R / n" "mp - R / n"] by simp
  also have "\<dots> \<le> \<bar>R / n\<bar> + (\<bar>R / n\<bar> / 2 ^ 53 + u)"
    using mp by (simp add: n_def)
  finally have "n * \<bar>mp\<bar> \<le> n * (\<bar>R / n\<bar> + (\<bar>R / n\<bar> / 2 ^ 53 + u))"
    using n1 by (intro mult_left_mono) simp_all
  also have "\<dots> = \<bar>R\<bar> + \<bar>R\<bar> / 2 ^ 53 + n * u"
    using n1 by (simp add: abs_divide algebra_simps)
  also have "n * u \<le> (2 ^ 52 + 1) * u"
    using n52 u by (rule mult_right_mono)
  finally have a: "n * \<bar>mp\<bar> \<le> \<bar>R\<bar> + \<bar>R\<bar> / 2 ^ 53 + (2 ^ 52 + 1) * u" by simp
  have "(\<bar>R\<bar> + n * \<bar>mp\<bar>) / 2 ^ 52 \<le> (\<bar>R\<bar> + (\<bar>R\<bar> + \<bar>R\<bar> / 2 ^ 53 + (2 ^ 52 + 1) * u)) / 2 ^ 52"
    using a by (intro divide_right_mono) simp_all
  also have "\<dots> \<le> \<bar>R\<bar> / 2 ^ 50 + 2 * u"
    using u by (simp add: field_simps)
  finally show ?thesis by (simp add: n_def)
qed

lemma schedule_drift:
  fixes R :: rat
  assumes "1 \<le> months" "of_int months - 1 \<le> (2::rat) ^ 52"
  shows "\<bar>sum_list (map ps_payment (monthly_rows_d t months (fl (R / of_int months)) 1 R)) - R\<bar>
           \<le> of_int (months - 1) * (\<bar>R\<bar> / 2 ^ 50 + pow2 (- 1073))"
proof -
  let ?mp = "fl (R / of_int months)"
  let ?eps = "(\<bar>R\<bar> + of_int months * \<bar>?mp\<bar>) / 2 ^ 52 + 2 * pow2 (- 1075)"
  have u: "(0::rat) \<le> pow2 (- 1075)" using pow2_pos [of "- 1075"] by simp
  have "\<bar>sum_list (map ps_payment (monthly_rows_d t months ?mp 1 R)) - (R - of_int (1 - 1) * ?mp)\<bar>
          \<le> of_int (months - 1) * ?eps"
    using assms by (intro monthly_rows_d_sum) simp_all
  then have a: "\<bar>sum_list (map ps_payment (monthly_rows_d t months ?mp 1 R)) - R\<bar>
          \<le> of_int (months - 1) * ?eps" by simp
  have "?eps \<le> \<bar>R\<bar> / 2 ^ 50 + 4 * pow2 (- 1075)"
    using assms u fl_error [of "R / of_int months"] by (rule eps_bound)
  then have "of_int (months - 1) * ?eps \<le> of_int (months - 1) * (\<bar>R\<bar> / 2 ^ 50 + pow2 (- 1073))"
    using assms(1) by (intro mult_left_mono) (simp_all add: pow2_1073)
  with a show ?thesis by linarith
qed

lemma recalc_rows_d_length:
  "length (recalc_rows_d t months mp month rb) = nat (months + 1 - month)"
  using arg_cong [OF conjunct1 [OF recalc_rows_d_payments [of t months mp month rb]], of length]
  by (simp add: monthly_rows_d_length)

lemma recalc_rows_d_sum:
  "sum_list (map ps_payment (recalc_rows_d t months mp month rb))
     = sum_list (map ps_payment (monthly_rows_d t months mp month rb))"
  by (simp add: recalc_rows_d_payments)

lemma recalc_rows_d_last:
  assumes "month \<le> months"
  shows "ps_remainingBalance (last (recalc_rows_d t months mp month rb)) = 0"
proof -
  have ne: "recalc_rows_d t months mp month rb \<noteq> []"
    using assms recalc_rows_d_length [of t months mp month rb] by auto
  have "ps_remainingBalance (last (recalc_rows_d t months mp month rb))
          = last (map ps_remainingBalance (recalc_rows_d t months mp month rb))"
    using ne by (simp add: last_map)
  also have "\<dots> = last (map ps_remainingBalance (monthly_rows_d t months mp month rb))"
    by (simp add: recalc_rows_d_payments)
  also have "\<dots> = ps_remainingBalance (last (monthly_rows_d t months mp month rb))"
    using monthly_rows_d_last [OF assms] by (simp add: last_map)
  finally show ?thesis using monthly_rows_d_last [OF assms] by simp
qed

lemma remaining_nonempty_d:
  "0 < remainingTotalPrincipal (recalc_remaining_d tx) \<Longrightarrow> remainingItems tx \<noteq> []"
  by (auto simp: recalc_remaining_d_def)

lemma recalculate_d_result:
  assumes tx: "transactions s txId = Some tx"
    and credit: "tx_paymentType tx = Some CREDIT \<or> tx_paymentType tx = Some INSTALLMENT"
    and pos: "0 < remainingTotalPrincipal (recalc_remaining_d tx)"
    and months: "0 < recalc_totalMonths (recalc_original_d tx)"
  shows "transactions (recalculatePaymentSchedules_d s txId) txId =
           Some (tx\<lparr>tx_paymentSchedules :=
                      recalc_rows_d txId (recalc_totalMonths (recalc_original_d tx))
                        (recalc_monthlyPayment tx) 1 (recalc_remainingWithInterest_d tx),
                    tx_total := remainingTotalPrincipal (recalc_remaining_d tx),
                    tx_finalTotal := recalc_remainingWithInterest_d tx\<rparr>)"
proof -
  have ne: "remainingItems tx \<noteq> []" using pos by (rule remaining_nonempty_d)
  have rows: "recalc_rows_d txId (recalc_totalMonths (recalc_original_d tx)) mp 1 rb \<noteq> []" for mp rb
    using months recalc_rows_d_length [of txId "recalc_totalMonths (recalc_original_d tx)" mp 1 rb]
    by auto
  show ?thesis
    using tx credit pos months ne rows
    by (auto simp: recalculatePaymentSchedules_d_def update_transaction_def Let_def)
qed

section \<open>Evaluating the example\<close>

lemmas js_defs = truthy_def or_zero_def truthy_string_def Let_def

lemmas ex_defs = ex_item_def ex_sale_def ex_product_def ex_store_def ex_return_def

lemma ex_totals:
  "sum_items zero_totals [ex_item] =
     \<lparr>totalPrincipal = 1000000, weightedPercentSum = 100000,
      percentWeightBase = 1000000, totalMonths = 3\<rparr>"
  by (simp add: zero_totals_def add_item_def line_principal_def ex_defs js_defs)

section \<open>Claims about the schedule engine\<close>

text \<open>
  C2, as the claim states it, fails: the code computes in doubles, and the six payments
  of the schedule for 100 over 6 months add up to \<open>100 - 2 ^ -46\<close>, at sale creation and
  at recomputation, while \<open>remainingWithInterest\<close> and the stored \<open>finalTotal\<close> are 100.
  Five payments are the double nearest to \<open>100 / 6\<close>, the last one is the balance that
  five rounded subtractions leave.
\<close>

theorem schedule_payments_sum_counterexample:
  "0 < totalPrincipal (sum_items_d zero_totals [ex_hundred]) \<and>
   totalMonths (sum_items_d zero_totals [ex_hundred]) = 6 \<and>
   schedule_remainingWithInterest [ex_hundred] 0 = 100 \<and>
   length (createPaymentSchedule_d 7 [ex_hundred] 0) = 6 \<and>
   sum_list (map ps_payment (createPaymentSchedule_d 7 [ex_hundred] 0)) = 100 - 1 / 2 ^ 46 \<and>
   map_option (\<lambda>t. (tx_finalTotal t, length (tx_paymentSchedules t),
                     sum_list (map ps_payment (tx_paymentSchedules t))))
     (transactions (recalculatePaymentSchedules_d ex_hundred_store 7) 7)
     = Some (100, 6, 100 - 1 / 2 ^ 46)"
  by code_simp

text \<open>
  C2, amended. Every monthly schedule the engine generates for a term of at least one
  month (and at most \<open>2 ^ 52\<close>) and a positive principal, at sale creation
  (\<open>createPaymentSchedule\<close>) or at recomputation (\<open>recalculatePaymentSchedules\<close>), has one
  row per month; the sum of its payments differs from \<open>remainingWithInterest\<close> by at most
  \<open>(months - 1) * (\<bar>remainingWithInterest\<bar> / 2 ^ 50 + 2 ^ -1073)\<close>, so that the sum is
  exact for a term of one month; and its last row has \<open>remainingBalance\<close> 0 exactly.
  After a recomputation the stored \<open>finalTotal\<close> is \<open>remainingWithInterest\<close>.
\<close>

theorem schedule_payments_drift:
  "(0 < totalPrincipal (sum_items_d zero_totals items)
      \<and> 1 \<le> totalMonths (sum_items_d zero_totals items)
      \<and> totalMonths (sum_items_d zero_totals items) \<le> 2 ^ 52 \<longrightarrow>
    length (createPaymentSchedule_d transactionId items downPayment)
      = nat (totalMonths (sum_items_d zero_totals items)) \<and>
    \<bar>sum_list (map ps_payment (createPaymentSchedule_d transactionId items downPayment))
       - schedule_remainingWithInterest items downPayment\<bar>
      \<le> of_int (totalMonths (sum_items_d zero_totals items) - 1)
           * (\<bar>schedule_remainingWithInterest items downPayment\<bar> / 2 ^ 50 + pow2 (- 1073)) \<and>
    ps_remainingBalance (last (createPaymentSchedule_d transactionId items downPayment)) = 0)
   \<and>
   (transactions s txId = Some tx
      \<and> (tx_paymentType tx = Some CREDIT \<or> tx_paymentType tx = Some INSTALLMENT)
      \<and> 0 < remainingTotalPrincipal (recalc_remaining_d tx)
      \<and> 1 \<le> recalc_totalMonths (recalc_original_d tx)
      \<and> recalc_totalMonths (recalc_original_d tx) \<le> 2 ^ 52 \<longrightarrow>
    (\<exists>tx'. transactions (recalculatePaymentSchedules_d s txId) txId = Some tx' \<and>
       length (tx_paymentSchedules tx') = nat (recalc_totalMonths (recalc_original_d tx)) \<and>
       \<bar>sum_list (map ps_payment (tx_paymentSchedules tx')) - recalc_remainingWithInterest_d tx\<bar>
         \<le> of_int (recalc_totalMonths (recalc_original_d tx) - 1)
              * (\<bar>recalc_remainingWithInterest_d tx\<bar> / 2 ^ 50 + pow2 (- 1073)) \<and>
       tx_finalTotal tx' = recalc_remainingWithInterest_d tx \<and>
       ps_remainingBalance (last (tx_paymentSchedules tx')) = 0))"
proof (intro conjI impI)
  let ?n = "totalMonths (sum_items_d zero_totals items)"
  assume a: "0 < totalPrincipal (sum_items_d zero_totals items) \<and> 1 \<le> ?n \<and> ?n \<le> 2 ^ 52"
  then have m: "1 \<le> ?n" by simp
  from a have "(of_int ?n :: rat) \<le> of_int (2 ^ 52)" by (simp only: of_int_le_iff)
  then have b: "of_int ?n - 1 \<le> (2::rat) ^ 52" by simp
  from a show "length (createPaymentSchedule_d transactionId items downPayment) = nat ?n"
    by (simp add: createPaymentSchedule_d_def Let_def monthly_rows_d_length)
  from a show "\<bar>sum_list (map ps_payment (createPaymentSchedule_d transactionId items downPayment))
       - schedule_remainingWithInterest items downPayment\<bar>
      \<le> of_int (?n - 1)
           * (\<bar>schedule_remainingWithInterest items downPayment\<bar> / 2 ^ 50 + pow2 (- 1073))"
    using schedule_drift [OF m b, of transactionId "schedule_remainingWithInterest items downPayment"]
    by (simp add: createPaymentSchedule_d_def Let_def schedule_monthlyPayment_def)
  from a show
    "ps_remainingBalance (last (createPaymentSchedule_d transactionId items downPayment)) = 0"
    by (simp add: createPaymentSchedule_d_def Let_def monthly_rows_d_last [OF m])
next
  let ?n = "recalc_totalMonths (recalc_original_d tx)"
  assume a: "transactions s txId = Some tx
      \<and> (tx_paymentType tx = Some CREDIT \<or> tx_paymentType tx = Some INSTALLMENT)
      \<and> 0 < remainingTotalPrincipal (recalc_remaining_d tx)
      \<and> 1 \<le> ?n \<and> ?n \<le> 2 ^ 52"
  then have m: "1 \<le> ?n" by simp
  from a have "(of_int ?n :: rat) \<le> of_int (2 ^ 52)" by (simp only: of_int_le_iff)
  then have b: "of_int ?n - 1 \<le> (2::rat) ^ 52" by simp
  have r: "transactions (recalculatePaymentSchedules_d s txId) txId =
           Some (tx\<lparr>tx_paymentSchedules :=
                      recalc_rows_d txId ?n
                        (recalc_monthlyPayment tx) 1 (recalc_remainingWithInterest_d tx),
                    tx_total := remainingTotalPrincipal (recalc_remaining_d tx),
                    tx_finalTotal := recalc_remainingWithInterest_d tx\<rparr>)"
    using a by (intro recalculate_d_result) auto
  show "\<exists>tx'. transactions (recalculatePaymentSchedules_d s txId) txId = Some tx' \<and>
       length (tx_paymentSchedules tx') = nat ?n \<and>
       \<bar>sum_list (map ps_payment (tx_paymentSchedules tx')) - recalc_remainingWithInterest_d tx\<bar>
         \<le> of_int (?n - 1) * (\<bar>recalc_remainingWithInterest_d tx\<bar> / 2 ^ 50 + pow2 (- 1073)) \<and>
       tx_finalTotal tx' = recalc_remainingWithInterest_d tx \<and>
       ps_remainingBalance (last (tx_paymentSchedules tx')) = 0"
    unfolding r
    using schedule_drift [OF m b, of txId "recalc_remainingWithInterest_d tx"]
    by (simp add: recalc_rows_d_length recalc_rows_d_sum recalc_rows_d_last [OF m]
          recalc_monthlyPayment_def)
qed

text \<open>
  The example sale with 200000 paid upfront: three rows whose payments add up to 880000
  within \<open>2 * (880000 / 2 ^ 50 + 2 ^ -1073)\<close>, at creation and again when the unchanged
  sale is recomputed.
\<close>

theorem schedule_payments_drift_witness:
  "(0 < totalPrincipal (sum_items_d zero_totals [ex_item])
      \<and> 1 \<le> totalMonths (sum_items_d zero_totals [ex_item])
      \<and> totalMonths (sum_items_d zero_totals [ex_item]) \<le> 2 ^ 52) \<and>
   schedule_remainingWithInterest [ex_item] 200000 = 880000 \<and>
   length (createPaymentSchedule_d 7 [ex_item] 200000) = 3 \<and>
   \<bar>sum_list (map ps_payment (createPaymentSchedule_d 7 [ex_item] 200000)) - 880000\<bar>
     \<le> 2 * (880000 / 2 ^ 50 + pow2 (- 1073)) \<and>
   ps_remainingBalance (last (createPaymentSchedule_d 7 [ex_item] 200000)) = 0 \<and>
   (transactions ex_store 7 = Some ex_sale
      \<and> (tx_paymentType ex_sale = Some CREDIT \<or> tx_paymentType ex_sale = Some INSTALLMENT)
      \<and> 0 < remainingTotalPrincipal (recalc_remaining_d ex_sale)
      \<and> 1 \<le> recalc_totalMonths (recalc_original_d ex_sale)
      \<and> recalc_totalMonths (recalc_original_d ex_sale) \<le> 2 ^ 52) \<and>
   recalc_remainingWithInterest_d ex_sale = 880000 \<and>
   (\<exists>tx'. transactions (recalculatePaymentSchedules_d ex_store 7) 7 = Some tx' \<and>
       length (tx_paymentSchedules tx') = 3 \<and>
       \<bar>sum_list (map ps_payment (tx_paymentSchedules tx')) - 880000\<bar>
         \<le> 2 * (880000 / 2 ^ 50 + pow2 (- 1073)) \<and>
       tx_finalTotal tx' = 880000 \<and>
       ps_remainingBalance (last (tx_paymentSchedules tx')) = 0)"
proof -
  have h1: "0 < totalPrincipal (sum_items_d zero_totals [ex_item])
      \<and> 1 \<le> totalMonths (sum_items_d zero_totals [ex_item])
      \<and> totalMonths (sum_items_d zero_totals [ex_item]) \<le> 2 ^ 52"
    by code_simp
  have h2: "transactions ex_store 7 = Some ex_sale
      \<and> (tx_paymentType ex_sale = Some CREDIT \<or> tx_paymentType ex_sale = Some INSTALLMENT)
      \<and> 0 < remainingTotalPrincipal (recalc_remaining_d ex_sale)
      \<and> 1 \<le> recalc_totalMonths (recalc_original_d ex_sale)
      \<and> recalc_totalMonths (recalc_original_d ex_sale) \<le> 2 ^ 52"
    by code_simp
  have v1: "schedule_remainingWithInterest [ex_item] 200000 = 880000" by code_simp
  have v2: "totalMonths (sum_items_d zero_totals [ex_item]) = 3" by code_simp
  have v3: "recalc_remainingWithInterest_d ex_sale = 880000" by code_simp
  have v4: "recalc_totalMonths (recalc_original_d ex_sale) = 3" by code_simp
  note t = schedule_payments_drift [of "[ex_item]" 7 200000 ex_store 7 ex_sale]
  from t h1 have c1:
    "length (createPaymentSchedule_d 7 [ex_item] 200000)
      = nat (totalMonths (sum_items_d zero_totals [ex_item])) \<and>
    \<bar>sum_list (map ps_payment (createPaymentSchedule_d 7 [ex_item] 200000))
       - schedule_remainingWithInterest [ex_item] 200000\<bar>
      \<le> of_int (totalMonths (sum_items_d zero_totals [ex_item]) - 1)
           * (\<bar>schedule_remainingWithInterest [ex_item] 200000\<bar> / 2 ^ 50 + pow2 (- 1073)) \<and>
    ps_remainingBalance (last (createPaymentSchedule_d 7 [ex_item] 200000)) = 0"
    by blast
  from t h2 have c2:
    "\<exists>tx'. transactions (recalculatePaymentSchedules_d ex_store 7) 7 = Some tx' \<and>
       length (tx_paymentSchedules tx') = nat (recalc_totalMonths (recalc_original_d ex_sale)) \<and>
       \<bar>sum_list (map ps_payment (tx_paymentSchedules tx')) - recalc_remainingWithInterest_d ex_sale\<bar>
         \<le> of_int (recalc_totalMonths (recalc_original_d ex_sale) - 1)
              * (\<bar>recalc_remainingWithInterest_d ex_sale\<bar> / 2 ^ 50 + pow2 (- 1073)) \<and>
       tx_finalTotal tx' = recalc_remainingWithInterest_d ex_sale \<and>
       ps_remainingBalance (last (tx_paymentSchedules tx')) = 0"
    by blast
  have d1: "length (createPaymentSchedule_d 7 [ex_item] 200000) = 3 \<and>
   \<bar>sum_list (map ps_payment (createPaymentSchedule_d 7 [ex_item] 200000)) - 880000\<bar>
     \<le> 2 * (880000 / 2 ^ 50 + pow2 (- 1073)) \<and>
   ps_remainingBalance (last (createPaymentSchedule_d 7 [ex_item] 200000)) = 0"
    using c1 unfolding v1 v2 by simp
  have d2: "\<exists>tx'. transactions (recalculatePaymentSchedules_d ex_store 7) 7 = Some tx' \<and>
       length (tx_paymentSchedules tx') = 3 \<and>
       \<bar>sum_list (map ps_payment (tx_paymentSchedules tx')) - 880000\<bar>
         \<le> 2 * (880000 / 2 ^ 50 + pow2 (- 1073)) \<and>
       tx_finalTotal tx' = 880000 \<and>
       ps_remainingBalance (last (tx_paymentSchedules tx')) = 0"
    using c2 unfolding v3 v4 by simp
  show ?thesis
    using h1 h2 v1 v3 d1 d2 by blast
qed






text \<open>
  The first pass of the recomputation reads the current quantity of every line, so with
  quantities that are not negative its ``original'' principal is the remaining one.
\<close>

lemma original_totals_acc:
  "originalTotalPrincipal (original_totals acc items)
     = originalTotalPrincipal acc + (\<Sum>item\<leftarrow>items. line_principal item)"
  by (induction items arbitrary: acc)
     (simp_all add: add_original_item_def Let_def line_principal_def)

lemma remaining_totals_acc:
  "remainingTotalPrincipal (remaining_totals acc items)
     = remainingTotalPrincipal acc + (\<Sum>item\<leftarrow>items. line_principal item)"
  by (induction items arbitrary: acc)
     (simp_all add: add_remaining_item_def Let_def line_principal_def)

lemma sum_positive_lines:
  "\<forall>item\<in>set items. 0 \<le> item_quantity item \<Longrightarrow>
   (\<Sum>item\<leftarrow>filter (\<lambda>item. item_quantity item > 0) items. line_principal item)
     = (\<Sum>item\<leftarrow>items. line_principal item)"
proof (induction items)
  case Nil
  then show ?case by simp
next
  case (Cons item items)
  then have "item_quantity item = 0 \<or> 0 < item_quantity item" by auto
  with Cons show ?case by (auto simp: line_principal_def)
qed

lemma upfrontRatio_is_one:
  assumes "\<forall>item\<in>set (tx_items tx). 0 \<le> item_quantity item"
    and "0 < remainingTotalPrincipal (recalc_remaining tx)"
  shows "upfrontRatio tx = 1" and "proportionalUpfront tx = or_zero (tx_amountPaid tx)"
proof -
  have "originalTotalPrincipal (recalc_original tx)
          = remainingTotalPrincipal (recalc_remaining tx)"
    using assms(1)
    by (simp add: recalc_original_def recalc_remaining_def remainingItems_def
          original_totals_acc remaining_totals_acc sum_positive_lines)
  with assms(2) show "upfrontRatio tx = 1" by (simp add: upfrontRatio_def)
  then show "proportionalUpfront tx = or_zero (tx_amountPaid tx)"
    by (simp add: proportionalUpfront_def)
qed

lemmas create_defs =
  DefectiveLogService_create_def actionType_of_def action_effect_def return_refund_def
  override_amount_def atomic_write_def mutate_sale_line_def reduce_line_def
  reverse_bonuses_def

lemmas recalc_defs =
  recalculatePaymentSchedules_def update_transaction_def remainingItems_def
  recalc_remaining_def recalc_original_def add_original_item_def add_remaining_item_def
  recalc_remainingWithInterest_def remainingWithInterest_of_def proportionalUpfront_def
  upfrontRatio_def recalc_effectivePercent_def

text \<open>
  C1. The claim: after a partial return the upfront payment of the new schedule is the
  original one times remaining principal over the principal before the return. The
  example sale had 200000 upfront on a principal of 1000000; after the return of 5 of
  its 10 units the principal is 500000, and the claim gives 200000 * (500000 / 1000000)
  = 100000. The code computes the ``original'' principal from the quantities after the
  return, its ratio is 1, and it applies the whole 200000: the recomputed \<open>finalTotal\<close>
  is (500000 - 200000) * 1.1 = 330000.
\<close>

theorem upfront_not_rescaled:
  "(case DefectiveLogService_create ex_store ex_return of
      Inl e \<Rightarrow> None
    | Inr (l, s') \<Rightarrow>
        map_option (\<lambda>t. (map item_quantity (tx_items t), tx_amountPaid t,
                          proportionalUpfront t, tx_total t, tx_finalTotal t))
          (transactions s' 7))
   = Some ([5], Some 200000, 200000, 500000, 330000)
   \<and> (200000 :: rat) * (500000 / 1000000) = 100000"
  by (simp add: create_defs recalc_defs js_defs ex_defs recalc_rows.simps)

text \<open>
  C9, as the claim states it, fails: the recomputation of a credit sale whose only line
  has quantity 0 deletes the stored schedule rows.
\<close>

lemma ex_schedule_nonempty: "createPaymentSchedule 7 [ex_item] 200000 \<noteq> []"
proof -
  have "length (createPaymentSchedule 7 [ex_item] 200000) = 3"
    by (simp add: createPaymentSchedule_def ex_totals Let_def monthly_rows_length
          del: sum_items.simps)
  then show ?thesis by auto
qed

theorem recompute_without_items_counterexample:
  "transactions ex_returned_store 7 = Some ex_returned_sale \<and>
   tx_paymentType ex_returned_sale = Some CREDIT \<and>
   map item_quantity (tx_items ex_returned_sale) = [0] \<and>
   tx_paymentSchedules ex_returned_sale \<noteq> [] \<and>
   map_option tx_paymentSchedules
     (transactions (recalculatePaymentSchedules ex_returned_store 7) 7) = Some []"
  using ex_schedule_nonempty
  by (simp add: ex_returned_store_def ex_returned_sale_def ex_sale_def ex_store_def ex_item_def
        recalculatePaymentSchedules_def update_transaction_def remainingItems_def Let_def)

text \<open>
  C9, amended. Schedule recomputation on a credit or installment transaction whose items
  all have quantity 0 deletes the stored payment-schedule rows of the transaction and
  creates none; the transaction's \<open>total\<close> and \<open>finalTotal\<close>, and the rest of the store,
  stay as they were.
\<close>

theorem recompute_without_items:
  assumes "transactions s txId = Some tx"
    and "tx_paymentType tx = Some CREDIT \<or> tx_paymentType tx = Some INSTALLMENT"
    and "\<forall>item\<in>set (tx_items tx). item_quantity item = 0"
  shows "recalculatePaymentSchedules s txId =
           s\<lparr>transactions := (transactions s)(txId \<mapsto> tx\<lparr>tx_paymentSchedules := []\<rparr>)\<rparr>"
proof -
  have none: "remainingItems tx = []"
    using assms(3) by (simp add: remainingItems_def filter_empty_conv)
  show ?thesis
  proof (cases "tx_paymentSchedules tx = []")
    case True
    then have "tx\<lparr>tx_paymentSchedules := []\<rparr> = tx" by simp
    then have "(transactions s)(txId \<mapsto> tx\<lparr>tx_paymentSchedules := []\<rparr>) = transactions s"
      using assms(1) by (simp add: map_upd_triv)
    then show ?thesis
      using assms(1,2) none True
      by (auto simp: recalculatePaymentSchedules_def Let_def)
  next
    case False
    then show ?thesis
      using assms(1,2) none
      by (auto simp: recalculatePaymentSchedules_def update_transaction_def Let_def)
  qed
qed

theorem recompute_without_items_witness:
  "transactions ex_returned_store 7 = Some ex_returned_sale \<and>
   tx_paymentType ex_returned_sale = Some CREDIT \<and>
   map item_quantity (tx_items ex_returned_sale) = [0] \<and>
   recalculatePaymentSchedules ex_returned_store 7 =
     ex_returned_store\<lparr>transactions :=
       (transactions ex_returned_store)(7 \<mapsto> ex_returned_sale\<lparr>tx_paymentSchedules := []\<rparr>)\<rparr>"
proof -
  have h: "transactions ex_returned_store 7 = Some ex_returned_sale \<and>
   tx_paymentType ex_returned_sale = Some CREDIT \<and>
   map item_quantity (tx_items ex_returned_sale) = [0]"
    by (simp add: ex_returned_store_def ex_returned_sale_def ex_sale_def)
  then have q: "\<forall>item\<in>set (tx_items ex_returned_sale). item_quantity item = 0"
    by (simp add: ex_returned_sale_def)
  show ?thesis
    using recompute_without_items [of ex_returned_store 7 ex_returned_sale] h q by simp
qed

section \<open>Claims about post-sale adjustments\<close>

text \<open>
  C4. The claim: a RETURN reduces \<open>extraProfit\<close> by the profit times returned quantity
  over the quantity of the line before the return. The example sale has a profit of 300
  on a line of 10; for a return of 5 the claim gives 300 - 300 * (5 / 10) = 150. The code
  divides by the quantity of the line before the return plus the returned quantity, 15,
  and stores 200.
\<close>

theorem extraProfit_after_return:
  "tx_extraProfit ex_sale = Some 300 \<and> map item_quantity (tx_items ex_sale) = [10] \<and>
   dto_quantity ex_return = 5 \<and>
   (case DefectiveLogService_create ex_store ex_return of
      Inl e \<Rightarrow> None
    | Inr (l, s') \<Rightarrow> map_option tx_extraProfit (transactions s' 7))
   = Some (Some 200)
   \<and> (300 :: rat) - 300 * (5 / 10) = 150"
  by (simp add: create_defs recalc_defs js_defs ex_defs recalc_rows.simps)

text \<open>What the steps of the atomic write leave untouched.\<close>

lemma update_transaction_frame [simp]:
  "products (update_transaction s t f) = products s"
  "branches (update_transaction s t f) = branches s"
  "users (update_transaction s t f) = users s"
  "transactionBonusProducts (update_transaction s t f) = transactionBonusProducts s"
  "bonuses (update_transaction s t f) = bonuses s"
  "defectiveLogs (update_transaction s t f) = defectiveLogs s"
  by (simp_all add: update_transaction_def split: option.splits)

lemma recalculate_frame [simp]:
  "products (recalculatePaymentSchedules s t) = products s"
  "branches (recalculatePaymentSchedules s t) = branches s"
  "users (recalculatePaymentSchedules s t) = users s"
  "transactionBonusProducts (recalculatePaymentSchedules s t) = transactionBonusProducts s"
  "bonuses (recalculatePaymentSchedules s t) = bonuses s"
  "defectiveLogs (recalculatePaymentSchedules s t) = defectiveLogs s"
  by (simp_all add: recalculatePaymentSchedules_def Let_def split: option.splits)

lemma reverse_bonuses_frame [simp]:
  "branches (reverse_bonuses s t tx orig q) = branches s"
  "defectiveLogs (reverse_bonuses s t tx orig q) = defectiveLogs s"
  by (simp_all add: reverse_bonuses_def Let_def)

lemma add_replacement_frame:
  "add_replacement s t dto = Inr s' \<Longrightarrow>
   branches s' = branches s \<and> defectiveLogs s' = defectiveLogs s"
  by (auto simp: add_replacement_def Let_def split: option.splits if_splits)

lemma mutate_sale_line_frame:
  "mutate_sale_line s dto = Inr (s', r) \<Longrightarrow>
   branches s' = branches s \<and> defectiveLogs s' = defectiveLogs s"
  by (auto simp: mutate_sale_line_def Let_def
           split: option.splits if_splits sum.splits dest: add_replacement_frame)

lemma atomic_write_cash:
  assumes "atomic_write s dto eff = Inr (dl, s', r)"
  shows "log_cashAmount dl = cashAmount eff"
    and "defectiveLogs s' = defectiveLogs s @ [dl]"
    and "truthy (dto_branchId dto) \<Longrightarrow> branches s (or_zero (dto_branchId dto)) = Some br \<Longrightarrow>
         branches s' = (branches s)(or_zero (dto_branchId dto) \<mapsto>
                          br\<lparr>cashBalance := cashBalance br + cashAmount eff\<rparr>)"
  using assms
  by (auto simp: atomic_write_def Let_def split: sum.splits prod.splits option.splits
           dest!: mutate_sale_line_frame)

text \<open>
  C10. For every action that completes with a \<open>branchId\<close> supplied (it is then one of
  DEFECTIVE, FIXED, RETURN, EXCHANGE), the \<open>cashAmount\<close> stored on the created log
  record is exactly the amount by which the cash balance of that branch grows; the log
  is the one row added to the defective logs, and no other branch changes.
\<close>

theorem log_matches_cash:
  assumes "DefectiveLogService_create s dto = Inr (dl, s')"
    and "dto_branchId dto = Some b" and "b \<noteq> 0"
  shows "\<exists>br. branches s b = Some br \<and>
              branches s' = (branches s)(b \<mapsto> br\<lparr>cashBalance := cashBalance br + log_cashAmount dl\<rparr>) \<and>
              defectiveLogs s' = defectiveLogs s @ [dl]"
proof -
  have t: "truthy (dto_branchId dto)" and z: "or_zero (dto_branchId dto) = b"
    using assms(2,3) by (simp_all add: truthy_def or_zero_def)
  from assms(1) obtain eff sm r where
    br: "branches s b \<noteq> None" and
    aw: "atomic_write s dto eff = Inr (dl, sm, r)" and
    s': "s' = sm \<or> s' = recalculatePaymentSchedules sm (or_zero r)"
    using t z
    by (auto simp: DefectiveLogService_create_def split: option.splits if_splits sum.splits prod.splits)
  from br obtain br0 where br0: "branches s b = Some br0" by auto
  have "branches sm = (branches s)(b \<mapsto> br0\<lparr>cashBalance := cashBalance br0 + cashAmount eff\<rparr>)"
    using atomic_write_cash(3) [OF aw t] br0 z by simp
  moreover have "log_cashAmount dl = cashAmount eff" using atomic_write_cash(1) [OF aw] .
  moreover have "defectiveLogs sm = defectiveLogs s @ [dl]" using atomic_write_cash(2) [OF aw] .
  ultimately show ?thesis using s' br0 by auto
qed

theorem log_matches_cash_witness:
  "dto_branchId ex_return = Some 1 \<and>
   (\<exists>l s'. DefectiveLogService_create ex_store ex_return = Inr (l, s') \<and>
      log_cashAmount l = - 500000 \<and>
      map_option cashBalance (branches ex_store 1) = Some 5000000 \<and>
      map_option cashBalance (branches s' 1) = Some 4500000 \<and>
      defectiveLogs s' = defectiveLogs ex_store @ [l])"
proof -
  obtain l s' where c: "DefectiveLogService_create ex_store ex_return = Inr (l, s')"
    and l: "log_cashAmount l = - 500000"
    by (simp add: create_defs recalc_defs js_defs ex_defs recalc_rows.simps)
  have b: "dto_branchId ex_return = Some 1" by (simp add: ex_return_def)
  have "(1::nat) \<noteq> 0" by simp
  from log_matches_cash [OF c b this] l show ?thesis
    using b c by (auto simp: ex_store_def)
qed

text \<open>The stock of the bonus products across returns.\<close>

lemma restock_quantity:
  "map_option prod_quantity (restock ps bps p) =
     map_option (\<lambda>pr. prod_quantity pr
                   + (\<Sum>bp\<leftarrow>filter (\<lambda>bp. tbp_productId bp = p) bps. tbp_quantity bp)) (ps p)"
proof (induction bps arbitrary: ps)
  case Nil
  then show ?case by (simp add: option.map_ident)
next
  case (Cons bp bps)
  show ?case
    by (cases "ps (tbp_productId bp)"; cases "ps p")
       (auto simp: Cons.IH option.map_comp comp_def)
qed

lemma filter_other_transaction:
  "filter (\<lambda>bp. tbp_transactionId bp = t) bps = [] \<Longrightarrow>
   filter (\<lambda>bp. tbp_transactionId bp \<noteq> t) bps = bps"
  by (induction bps) (auto split: if_splits)

lemma reverse_bonuses_stock:
  "products (reverse_bonuses s t tx orig q) =
     restock (products s) (filter (\<lambda>bp. tbp_transactionId bp = t) (transactionBonusProducts s))"
  "transactionBonusProducts (reverse_bonuses s t tx orig q) =
     filter (\<lambda>bp. tbp_transactionId bp \<noteq> t) (transactionBonusProducts s)"
  by (auto simp: reverse_bonuses_def Let_def filter_other_transaction)

text \<open>A RETURN that reaches the line of the sale: the stock after the linked-sale block.\<close>

lemma mutate_return_found:
  assumes "actionType_of dto = ''RETURN''" and "dto_isFromSale dto"
    and "dto_transactionId dto = Some t" and "t \<noteq> 0"
    and "transactions s t = Some tx"
    and "find_position (\<lambda>i. item_productId i = Some (dto_productId dto)) (tx_items tx) = Some k"
    and "mutate_sale_line s dto = Inr (s', r)"
  shows "products s' =
           restock (products s)
             (filter (\<lambda>bp. tbp_transactionId bp = t) (transactionBonusProducts s))"
    and "transactionBonusProducts s' =
           filter (\<lambda>bp. tbp_transactionId bp \<noteq> t) (transactionBonusProducts s)"
  using assms
  by (auto simp: mutate_sale_line_def Let_def truthy_def or_zero_def reverse_bonuses_stock
           split: if_splits)

text \<open>A RETURN against a transaction that has no bonus products left: no stock moves.\<close>

lemma mutate_return_no_rows:
  assumes "actionType_of dto = ''RETURN''"
    and "dto_transactionId dto = Some t"
    and "filter (\<lambda>bp. tbp_transactionId bp = t) (transactionBonusProducts s) = []"
    and "mutate_sale_line s dto = Inr (s', r)"
  shows "products s' = products s"
  using assms
  by (auto simp: mutate_sale_line_def Let_def truthy_def or_zero_def reverse_bonuses_stock
           split: if_splits option.splits)

text \<open>What a RETURN that completes does before and after the linked-sale block.\<close>

lemma create_return_steps:
  assumes "DefectiveLogService_create s dto = Inr (dl, s')"
    and "actionType_of dto = ''RETURN''"
  shows "\<exists>product sm r.
    products s (dto_productId dto) = Some product \<and>
    mutate_sale_line
       (s\<lparr>defectiveLogs := defectiveLogs s @ [dl],
          products := (products s)(dto_productId dto \<mapsto>
            product\<lparr>prod_quantity := prod_quantity product + dto_quantity dto,
                    prod_defectiveQuantity := prod_defectiveQuantity product,
                    prod_returnedQuantity := prod_returnedQuantity product + dto_quantity dto,
                    prod_exchangedQuantity := prod_exchangedQuantity product,
                    prod_status := RETURNED\<rparr>)\<rparr>) dto = Inr (sm, r) \<and>
    products s' = products sm \<and>
    transactionBonusProducts s' = transactionBonusProducts sm"
proof -
  from assms obtain product eff sm r where
    p: "products s (dto_productId dto) = Some product" and
    e: "action_effect s dto product = Inr eff" and
    aw: "atomic_write s dto eff = Inr (dl, sm, r)" and
    s': "s' = sm \<or> s' = recalculatePaymentSchedules sm (or_zero r)"
    by (auto simp: DefectiveLogService_create_def
             split: option.splits if_splits sum.splits prod.splits)
  from e assms(2) have eff:
    "newQuantity eff = prod_quantity product + dto_quantity dto"
    "newDefectiveQuantity eff = prod_defectiveQuantity product"
    "newReturnedQuantity eff = prod_returnedQuantity product + dto_quantity dto"
    "newExchangedQuantity eff = prod_exchangedQuantity product"
    "newStatus eff = RETURNED"
    by (auto simp: action_effect_def Let_def)
  from aw p obtain sl where
    m: "mutate_sale_line
       (s\<lparr>defectiveLogs := defectiveLogs s @ [dl],
          products := (products s)(dto_productId dto \<mapsto>
            product\<lparr>prod_quantity := newQuantity eff,
                    prod_defectiveQuantity := newDefectiveQuantity eff,
                    prod_returnedQuantity := newReturnedQuantity eff,
                    prod_exchangedQuantity := newExchangedQuantity eff,
                    prod_status := newStatus eff\<rparr>)\<rparr>) dto = Inr (sl, r)"
    and sm: "products sm = products sl"
      "transactionBonusProducts sm = transactionBonusProducts sl"
    by (auto simp: atomic_write_def Let_def split: sum.splits prod.splits option.splits)
  show ?thesis
    using p m sm s' unfolding eff by auto
qed

text \<open>
  C6. A RETURN that reaches a line of a sale restocks the bonus products of the
  transaction and deletes their join rows: every existing product then holds its old
  quantity, plus the returned quantity if it is the returned product, plus the
  quantities of its bonus rows of that transaction. After a second RETURN against the
  same transaction every product holds what it held before it, plus the returned
  quantity if it is the returned product: no bonus product is restocked again.
\<close>

theorem bonus_restock_once:
  assumes first: "DefectiveLogService_create s r1 = Inr (l1, s1)"
    and ret1: "actionType_of r1 = ''RETURN''"
    and sale1: "dto_isFromSale r1"
    and tx1: "dto_transactionId r1 = Some t" "t \<noteq> 0"
    and tx: "transactions s t = Some tx"
    and line: "find_position (\<lambda>i. item_productId i = Some (dto_productId r1)) (tx_items tx)
                 = Some k"
    and second: "DefectiveLogService_create s1 r2 = Inr (l2, s2)"
    and ret2: "actionType_of r2 = ''RETURN''"
    and tx2: "dto_transactionId r2 = Some t"
  shows
    "filter (\<lambda>bp. tbp_transactionId bp = t) (transactionBonusProducts s1) = [] \<and>
     (\<forall>p pr. products s p = Some pr \<longrightarrow>
        map_option prod_quantity (products s1 p) =
          Some (prod_quantity pr
                + (if p = dto_productId r1 then dto_quantity r1 else 0)
                + (\<Sum>bp\<leftarrow>filter (\<lambda>bp. tbp_transactionId bp = t \<and> tbp_productId bp = p)
                              (transactionBonusProducts s). tbp_quantity bp))) \<and>
     (\<forall>p pr. products s1 p = Some pr \<longrightarrow>
        map_option prod_quantity (products s2 p) =
          Some (prod_quantity pr + (if p = dto_productId r2 then dto_quantity r2 else 0)))"
proof (intro conjI allI impI)
  from create_return_steps [OF first ret1] obtain product sm r where
    p1: "products s (dto_productId r1) = Some product" and
    m1: "mutate_sale_line
       (s\<lparr>defectiveLogs := defectiveLogs s @ [l1],
          products := (products s)(dto_productId r1 \<mapsto>
            product\<lparr>prod_quantity := prod_quantity product + dto_quantity r1,
                    prod_defectiveQuantity := prod_defectiveQuantity product,
                    prod_returnedQuantity := prod_returnedQuantity product + dto_quantity r1,
                    prod_exchangedQuantity := prod_exchangedQuantity product,
                    prod_status := RETURNED\<rparr>)\<rparr>) r1 = Inr (sm, r)" and
    e1: "products s1 = products sm"
        "transactionBonusProducts s1 = transactionBonusProducts sm"
    by blast
  let ?rows = "filter (\<lambda>bp. tbp_transactionId bp = t) (transactionBonusProducts s)"
  let ?ps = "(products s)(dto_productId r1 \<mapsto>
            product\<lparr>prod_quantity := prod_quantity product + dto_quantity r1,
                    prod_defectiveQuantity := prod_defectiveQuantity product,
                    prod_returnedQuantity := prod_returnedQuantity product + dto_quantity r1,
                    prod_exchangedQuantity := prod_exchangedQuantity product,
                    prod_status := RETURNED\<rparr>)"
  have stock1: "products s1 = restock ?ps ?rows"
    using mutate_return_found(1) [OF ret1 sale1 tx1 _ _ m1, of tx k] tx line e1 by simp
  have rows1: "transactionBonusProducts s1
                 = filter (\<lambda>bp. tbp_transactionId bp \<noteq> t) (transactionBonusProducts s)"
    using mutate_return_found(2) [OF ret1 sale1 tx1 _ _ m1, of tx k] tx line e1 by simp
  show gone: "filter (\<lambda>bp. tbp_transactionId bp = t) (transactionBonusProducts s1) = []"
    unfolding rows1 by (simp add: filter_empty_conv)
  {
    fix p pr assume pr: "products s p = Some pr"
    have "filter (\<lambda>bp. tbp_productId bp = p) ?rows
            = filter (\<lambda>bp. tbp_transactionId bp = t \<and> tbp_productId bp = p)
                (transactionBonusProducts s)"
      by (simp add: conj_commute)
    then show "map_option prod_quantity (products s1 p) =
          Some (prod_quantity pr
                + (if p = dto_productId r1 then dto_quantity r1 else 0)
                + (\<Sum>bp\<leftarrow>filter (\<lambda>bp. tbp_transactionId bp = t \<and> tbp_productId bp = p)
                              (transactionBonusProducts s). tbp_quantity bp))"
      using pr p1 by (auto simp: stock1 restock_quantity)
  }
  {
    fix p pr assume pr: "products s1 p = Some pr"
    from create_return_steps [OF second ret2] obtain product2 sm2 r' where
      p2: "products s1 (dto_productId r2) = Some product2" and
      m2: "mutate_sale_line
         (s1\<lparr>defectiveLogs := defectiveLogs s1 @ [l2],
            products := (products s1)(dto_productId r2 \<mapsto>
              product2\<lparr>prod_quantity := prod_quantity product2 + dto_quantity r2,
                      prod_defectiveQuantity := prod_defectiveQuantity product2,
                      prod_returnedQuantity := prod_returnedQuantity product2 + dto_quantity r2,
                      prod_exchangedQuantity := prod_exchangedQuantity product2,
                      prod_status := RETURNED\<rparr>)\<rparr>) r2 = Inr (sm2, r')" and
      e2: "products s2 = products sm2"
      by blast
    have "products sm2 = (products s1)(dto_productId r2 \<mapsto>
              product2\<lparr>prod_quantity := prod_quantity product2 + dto_quantity r2,
                      prod_defectiveQuantity := prod_defectiveQuantity product2,
                      prod_returnedQuantity := prod_returnedQuantity product2 + dto_quantity r2,
                      prod_exchangedQuantity := prod_exchangedQuantity product2,
                      prod_status := RETURNED\<rparr>)"
      using mutate_return_no_rows [OF ret2 tx2 _ m2] gone by simp
    then show "map_option prod_quantity (products s2 p) =
          Some (prod_quantity pr + (if p = dto_productId r2 then dto_quantity r2 else 0))"
      using pr p2 e2 by auto
  }
qed

theorem bonus_restock_once_witness:
  "\<exists>l1 s1 l2 s2.
     DefectiveLogService_create ex_store ex_return = Inr (l1, s1) \<and>
     DefectiveLogService_create s1 ex_return_again = Inr (l2, s2) \<and>
     map_option prod_quantity (products ex_store 2) = Some 4 \<and>
     filter (\<lambda>bp. tbp_transactionId bp = 7) (transactionBonusProducts s1) = [] \<and>
     map_option prod_quantity (products s1 2) = Some 5 \<and>
     map_option prod_quantity (products s2 2) = Some 5 \<and>
     map_option prod_quantity (products s2 1) = Some 12"
proof -
  have "\<exists>l1 s1 l2 s2.
     DefectiveLogService_create ex_store ex_return = Inr (l1, s1) \<and>
     DefectiveLogService_create s1 ex_return_again = Inr (l2, s2)"
    by (simp add: create_defs recalc_defs js_defs ex_defs ex_return_again_def recalc_rows.simps)
  then obtain l1 s1 l2 s2 where
    c1: "DefectiveLogService_create ex_store ex_return = Inr (l1, s1)" and
    c2: "DefectiveLogService_create s1 ex_return_again = Inr (l2, s2)"
    by blast
  have h: "actionType_of ex_return = ''RETURN''" "dto_isFromSale ex_return"
    "dto_transactionId ex_return = Some 7" "(7::nat) \<noteq> 0"
    "transactions ex_store 7 = Some ex_sale"
    "find_position (\<lambda>i. item_productId i = Some (dto_productId ex_return)) (tx_items ex_sale)
       = Some 0"
    "actionType_of ex_return_again = ''RETURN''" "dto_transactionId ex_return_again = Some 7"
    by (simp_all add: actionType_of_def ex_defs ex_return_again_def)
  note t = bonus_restock_once [OF c1 h(1-6) c2 h(7,8)]
  from t have gone:
    "filter (\<lambda>bp. tbp_transactionId bp = 7) (transactionBonusProducts s1) = []"
    by blast
  from t have once: "\<And>p pr. products ex_store p = Some pr \<Longrightarrow>
        map_option prod_quantity (products s1 p) =
          Some (prod_quantity pr
                + (if p = dto_productId ex_return then dto_quantity ex_return else 0)
                + (\<Sum>bp\<leftarrow>filter (\<lambda>bp. tbp_transactionId bp = 7 \<and> tbp_productId bp = p)
                              (transactionBonusProducts ex_store). tbp_quantity bp))"
    by blast
  from t have again: "\<And>p pr. products s1 p = Some pr \<Longrightarrow>
        map_option prod_quantity (products s2 p) =
          Some (prod_quantity pr
                + (if p = dto_productId ex_return_again then dto_quantity ex_return_again
                   else 0))"
    by blast
  have p2: "products ex_store 2 = Some (ex_product 1000 4)"
    and p1: "products ex_store 1 = Some (ex_product 80000 5)"
    by (simp_all add: ex_store_def)
  have q2: "map_option prod_quantity (products s1 2) = Some 5"
    using once [OF p2] by (simp add: ex_defs)
  have q1: "map_option prod_quantity (products s1 1) = Some 10"
    using once [OF p1] by (simp add: ex_defs)
  from q2 obtain pr2 where pr2: "products s1 2 = Some pr2" "prod_quantity pr2 = 5" by auto
  have r2: "map_option prod_quantity (products s2 2) = Some 5"
    using again [OF pr2(1)] pr2(2) by (simp add: ex_defs ex_return_again_def)
  from q1 obtain pr1 where pr1: "products s1 1 = Some pr1" "prod_quantity pr1 = 10" by auto
  have r1: "map_option prod_quantity (products s2 1) = Some 12"
    using again [OF pr1(1)] pr1(2) by (simp add: ex_defs ex_return_again_def)
  have "map_option prod_quantity (products ex_store 2) = Some 4"
    by (simp add: p2 ex_product_def)
  then show ?thesis
    using c1 c2 gone q2 r2 r1 by blast
qed

section \<open>Claims about sale creation\<close>

text \<open>The effect of the stock loop on one product, line by line.\<close>

lemma update_item_stock_other:
  "item_productId item \<noteq> Some p \<Longrightarrow> update_item_stock type ps item p = ps p"
  by (auto simp: update_item_stock_def truthy_def or_zero_def Let_def split: option.splits)

lemma update_item_stock_sale:
  "item_productId item = Some p \<Longrightarrow> p \<noteq> 0 \<Longrightarrow> ps p = Some product \<Longrightarrow>
   update_item_stock SALE ps item p = Some (sold_line product item)"
  by (simp add: update_item_stock_def sold_line_def truthy_def or_zero_def Let_def)

lemma update_item_stock_purchase:
  "item_productId item = Some p \<Longrightarrow> p \<noteq> 0 \<Longrightarrow> ps p = Some product \<Longrightarrow>
   update_item_stock PURCHASE ps item p = Some (purchased_line product item)"
  by (simp add: update_item_stock_def purchased_line_def truthy_def or_zero_def Let_def)

lemma update_stock_sale:
  "ps p = Some product \<Longrightarrow> p \<noteq> 0 \<Longrightarrow>
   update_stock SALE ps items p =
     Some (foldl sold_line product (filter (\<lambda>i. item_productId i = Some p) items))"
proof (induction items arbitrary: ps product)
  case Nil
  then show ?case by simp
next
  case (Cons item items)
  show ?case
  proof (cases "item_productId item = Some p")
    case True
    then show ?thesis
      using Cons.IH [of "update_item_stock SALE ps item" "sold_line product item"]
        update_item_stock_sale [of item p ps product, OF True Cons.prems(2,1)] Cons.prems(2)
      by simp
  next
    case False
    then show ?thesis
      using Cons.IH [of "update_item_stock SALE ps item" product] Cons.prems
      by (simp add: update_item_stock_other)
  qed
qed

lemma update_stock_purchase:
  "ps p = Some product \<Longrightarrow> p \<noteq> 0 \<Longrightarrow>
   update_stock PURCHASE ps items p =
     Some (foldl purchased_line product (filter (\<lambda>i. item_productId i = Some p) items))"
proof (induction items arbitrary: ps product)
  case Nil
  then show ?case by simp
next
  case (Cons item items)
  show ?case
  proof (cases "item_productId item = Some p")
    case True
    then show ?thesis
      using Cons.IH [of "update_item_stock PURCHASE ps item" "purchased_line product item"]
        update_item_stock_purchase [of item p ps product, OF True Cons.prems(2,1)] Cons.prems(2)
      by simp
  next
    case False
    then show ?thesis
      using Cons.IH [of "update_item_stock PURCHASE ps item" product] Cons.prems
      by (simp add: update_item_stock_other)
  qed
qed

text \<open>
  C7. For every sale or purchase, the stock update leaves each existing product that the
  transaction references as its lines make it, in order: each line of a SALE takes its
  quantity from the product's quantity, floored at 0, and sets the status \<open>SOLD\<close> when
  the new quantity is 0 and \<open>IN_STORE\<close> otherwise (\<open>sold_line\<close>); each line of a
  PURCHASE adds its quantity and sets \<open>IN_WAREHOUSE\<close> (\<open>purchased_line\<close>). A product
  referenced by one line gets exactly that line's update.
\<close>

theorem stock_update:
  assumes "products s p = Some product" and "p \<noteq> 0"
  shows "(tx_type tx = SALE \<longrightarrow>
            products (updateProductQuantities s tx) p =
              Some (foldl sold_line product
                      (filter (\<lambda>i. item_productId i = Some p) (tx_items tx)))) \<and>
         (tx_type tx = PURCHASE \<longrightarrow>
            products (updateProductQuantities s tx) p =
              Some (foldl purchased_line product
                      (filter (\<lambda>i. item_productId i = Some p) (tx_items tx))))"
  using assms
  by (simp add: updateProductQuantities_def update_stock_sale update_stock_purchase)

theorem stock_update_witness:
  "products ex_store 1 = Some (ex_product 80000 5) \<and>
   filter (\<lambda>i. item_productId i = Some 1) (tx_items ex_sale_of_two) = [ex_item] \<and>
   item_quantity ex_item = 10 \<and>
   tx_type ex_sale_of_two = SALE \<and>
   products (updateProductQuantities ex_store ex_sale_of_two) 1 =
     Some ((ex_product 80000 5)\<lparr>prod_quantity := 0, prod_status := SOLD\<rparr>) \<and>
   tx_type (ex_sale_of_two\<lparr>tx_type := PURCHASE\<rparr>) = PURCHASE \<and>
   products (updateProductQuantities ex_store (ex_sale_of_two\<lparr>tx_type := PURCHASE\<rparr>)) 1 =
     Some ((ex_product 80000 5)\<lparr>prod_quantity := 15, prod_status := IN_WAREHOUSE\<rparr>)"
proof -
  have h: "products ex_store 1 = Some (ex_product 80000 5)" "(1::nat) \<noteq> 0"
    by (simp_all add: ex_store_def)
  have f: "filter (\<lambda>i. item_productId i = Some 1) (tx_items ex_sale_of_two) = [ex_item]"
    "tx_type ex_sale_of_two = SALE" "item_quantity ex_item = 10"
    by (simp_all add: ex_sale_of_two_def ex_sale_def ex_item_def ex_cash_item_def)
  show ?thesis
    using stock_update [OF h, of ex_sale_of_two]
      stock_update [OF h, of "ex_sale_of_two\<lparr>tx_type := PURCHASE\<rparr>"] h f
    by (simp add: sold_line_def purchased_line_def ex_product_def)
qed

text \<open>\<open>Math.round\<close> on whole numbers; rules to evaluate the examples.\<close>

lemma Math_round_of_int: "Math_round (of_int n) = n"
  by (simp add: Math_round_def) linarith

lemma Math_round_numeral: "Math_round (numeral n) = numeral n"
  using Math_round_of_int [of "numeral n"] by simp

lemma Math_round_zero: "Math_round 0 = 0"
  using Math_round_of_int [of 0] by simp

text \<open>The total of the counted payments, and the computed total, as sums in doubles.\<close>

lemma foldl_paymentsData:
  "foldl (\<lambda>sum p. fl (sum + pay_amount p)) a (paymentsData payments)
     = foldl (\<lambda>sum p. fl (sum + fl (pb_amount p))) a (filter valid_entry payments)"
  by (induction payments arbitrary: a) (auto simp: paymentsData_def valid_entry_def)

lemma totalPayments_valid: "totalPayments payments = valid_breakdown_sum payments"
  by (simp add: totalPayments_def valid_breakdown_sum_def foldl_paymentsData)

lemma computed_totals_d_total:
  "computedTotal (computed_totals_d acc items)
     = foldl (\<lambda>sum item. fl (sum + fl (fl (item_price item) * of_int (item_quantity item))))
         (computedTotal acc) items"
  by (induction items arbitrary: acc)
     (simp_all add: add_computed_item_d_def line_principal_d_def Let_def)

lemma computedTotal_sum: "computedTotal (create_totals_d items) = item_total_sum items"
  by (simp add: create_totals_d_def item_total_sum_def computed_totals_d_total)

text \<open>
  C8, as the claim states it, fails: the breakdown of the example cash sale sums to
  1000000, the item total, yet creation fails, since the entry with the unknown method
  is not counted.
\<close>

theorem payments_check_counterexample:
  "ct_payments ex_cash_dto = Some [\<lparr>pb_method = ''cash'', pb_amount = 600000\<rparr>,
                                    \<lparr>pb_method = ''CLICK'', pb_amount = 400000\<rparr>] \<and>
   Math_round (breakdown_sum [\<lparr>pb_method = ''cash'', pb_amount = 600000\<rparr>,
                               \<lparr>pb_method = ''CLICK'', pb_amount = 400000\<rparr>]) = 1000000 \<and>
   Math_round (computedTotal (create_totals_d (ct_items ex_cash_dto))) = 1000000 \<and>
   TransactionService_create ex_store 8 ex_cash_dto (Some 1)
     = Inl (PaymentsMismatch 1000000 600000)"
proof -
  have a: "ct_payments ex_cash_dto = Some [\<lparr>pb_method = ''cash'', pb_amount = 600000\<rparr>,
                                    \<lparr>pb_method = ''CLICK'', pb_amount = 400000\<rparr>]"
    by (simp add: ex_cash_dto_def)
  have b: "Math_round (breakdown_sum [\<lparr>pb_method = ''cash'', pb_amount = 600000\<rparr>,
                               \<lparr>pb_method = ''CLICK'', pb_amount = 400000\<rparr>]) = 1000000"
    by code_simp
  have c: "Math_round (computedTotal (create_totals_d (ct_items ex_cash_dto))) = 1000000"
    by code_simp
  have v: "validate_payments (ct_items ex_cash_dto) (ct_payments ex_cash_dto)
             = Inl (PaymentsMismatch 1000000 600000)"
    by code_simp
  have d: "TransactionService_create ex_store 8 ex_cash_dto (Some 1)
     = Inl (PaymentsMismatch 1000000 600000)"
    by (simp add: TransactionService_create_def v Let_def)
       (simp add: ex_cash_dto_def ex_store_def truthy_def or_zero_def)
  show ?thesis using a b c d by blast
qed

text \<open>
  C8, amended. When a sale request that passes the earlier checks supplies a payments
  breakdown that is not empty, creation fails if and only if the sum of the counted
  entries (a positive amount and, upper-cased, a method among CASH, CARD, TERMINAL,
  TOVAR), added up in doubles and rounded to the nearest integer, differs from the item
  total, added up in doubles and rounded to the nearest integer; the failure is the
  payments-mismatch error, and when the two are equal creation proceeds.
\<close>

theorem payments_check:
  assumes "passes_earlier_checks s dto userId"
    and "ct_payments dto = Some payments" and "payments \<noteq> []"
  shows "((\<exists>e. TransactionService_create s transactionId dto userId = Inl e) \<longleftrightarrow>
            Math_round (valid_breakdown_sum payments)
              \<noteq> Math_round (item_total_sum (ct_items dto))) \<and>
         (Math_round (valid_breakdown_sum payments)
              \<noteq> Math_round (item_total_sum (ct_items dto)) \<longrightarrow>
            TransactionService_create s transactionId dto userId =
              Inl (PaymentsMismatch (Math_round (item_total_sum (ct_items dto)))
                     (Math_round (valid_breakdown_sum payments)))) \<and>
         (Math_round (valid_breakdown_sum payments)
              = Math_round (item_total_sum (ct_items dto)) \<longrightarrow>
            (\<exists>s'. TransactionService_create s transactionId dto userId = Inr s'))"
proof -
  have up: "\<not> (case ct_upfrontPaymentType dto of
                 None \<Rightarrow> False
               | Some u \<Rightarrow> u \<noteq> [] \<and> u \<notin> set [''CASH'', ''CARD'', ''TERMINAL''])"
    and user: "\<not> (truthy userId \<and> users s (or_zero userId) = None)"
    using assms(1) by (auto simp: passes_earlier_checks_def split: option.splits)
  have v: "validate_payments (ct_items dto) (ct_payments dto) =
            (if Math_round (item_total_sum (ct_items dto))
                  \<noteq> Math_round (valid_breakdown_sum payments)
             then Inl (PaymentsMismatch (Math_round (item_total_sum (ct_items dto)))
                     (Math_round (valid_breakdown_sum payments)))
             else Inr (paymentsData payments))"
    using assms(2,3)
    by (simp add: validate_payments_def totalPayments_valid computedTotal_sum Let_def)
  show ?thesis
    using user up
    by (auto simp: TransactionService_create_def v Let_def)
qed

text \<open>
  Three requests: the example paid by cash and card is created; 50 units at 0.29 paid
  15 are refused, since the item total in doubles is \<open>14.5 - 2 ^ -49\<close> and rounds to 14
  (the exact product \<open>14.5\<close> would round to 15); a payment whose method is written with
  a long s counts as CASH.
\<close>

theorem payments_check_witness:
  "passes_earlier_checks ex_store ex_card_dto (Some 1) \<and>
   ct_payments ex_card_dto = Some [\<lparr>pb_method = ''cash'', pb_amount = 600000\<rparr>,
                                    \<lparr>pb_method = ''CARD'', pb_amount = 400000\<rparr>] \<and>
   Math_round (valid_breakdown_sum [\<lparr>pb_method = ''cash'', pb_amount = 600000\<rparr>,
                                     \<lparr>pb_method = ''CARD'', pb_amount = 400000\<rparr>]) = 1000000 \<and>
   Math_round (item_total_sum (ct_items ex_card_dto)) = 1000000 \<and>
   (\<exists>s'. TransactionService_create ex_store 8 ex_card_dto (Some 1) = Inr s') \<and>
   passes_earlier_checks ex_store ex_decimal_dto (Some 1) \<and>
   ct_payments ex_decimal_dto = Some [\<lparr>pb_method = ''CASH'', pb_amount = 15\<rparr>] \<and>
   map (\<lambda>item. (item_price item, item_quantity item)) (ct_items ex_decimal_dto)
     = [(29 / 100, 50)] \<and>
   Math_round (29 / 100 * 50) = 15 \<and>
   Math_round (valid_breakdown_sum [\<lparr>pb_method = ''CASH'', pb_amount = 15\<rparr>]) = 15 \<and>
   Math_round (item_total_sum (ct_items ex_decimal_dto)) = 14 \<and>
   TransactionService_create ex_store 8 ex_decimal_dto (Some 1) = Inl (PaymentsMismatch 14 15) \<and>
   passes_earlier_checks ex_store ex_long_s_dto (Some 1) \<and>
   ct_payments ex_long_s_dto
     = Some [\<lparr>pb_method = ''ca'' @ [CHR 0xC5, CHR 0xBF] @ ''h'', pb_amount = 1000000\<rparr>] \<and>
   toUpperCase (''ca'' @ [CHR 0xC5, CHR 0xBF] @ ''h'') = ''CASH'' \<and>
   Math_round (valid_breakdown_sum
     [\<lparr>pb_method = ''ca'' @ [CHR 0xC5, CHR 0xBF] @ ''h'', pb_amount = 1000000\<rparr>]) = 1000000 \<and>
   Math_round (item_total_sum (ct_items ex_long_s_dto)) = 1000000 \<and>
   (\<exists>s'. TransactionService_create ex_store 8 ex_long_s_dto (Some 1) = Inr s')"
proof -
  have u: "passes_earlier_checks ex_store ex_card_dto (Some 1)"
    "passes_earlier_checks ex_store ex_decimal_dto (Some 1)"
    "passes_earlier_checks ex_store ex_long_s_dto (Some 1)"
    by (simp_all add: passes_earlier_checks_def ex_card_dto_def ex_decimal_dto_def
          ex_long_s_dto_def ex_cash_dto_def ex_store_def truthy_def or_zero_def)
  have p: "ct_payments ex_card_dto = Some [\<lparr>pb_method = ''cash'', pb_amount = 600000\<rparr>,
                                    \<lparr>pb_method = ''CARD'', pb_amount = 400000\<rparr>]"
    "ct_payments ex_decimal_dto = Some [\<lparr>pb_method = ''CASH'', pb_amount = 15\<rparr>]"
    "ct_payments ex_long_s_dto
       = Some [\<lparr>pb_method = ''ca'' @ [CHR 0xC5, CHR 0xBF] @ ''h'', pb_amount = 1000000\<rparr>]"
    by (simp_all add: ex_card_dto_def ex_decimal_dto_def ex_long_s_dto_def ex_cash_dto_def)
  have i: "map (\<lambda>item. (item_price item, item_quantity item)) (ct_items ex_decimal_dto)
     = [(29 / 100, 50)]"
    by (simp add: ex_decimal_dto_def)
  have v: "Math_round (valid_breakdown_sum [\<lparr>pb_method = ''cash'', pb_amount = 600000\<rparr>,
                                     \<lparr>pb_method = ''CARD'', pb_amount = 400000\<rparr>]) = 1000000"
    "Math_round (item_total_sum (ct_items ex_card_dto)) = 1000000"
    "Math_round (29 / 100 * 50) = 15"
    "Math_round (valid_breakdown_sum [\<lparr>pb_method = ''CASH'', pb_amount = 15\<rparr>]) = 15"
    "Math_round (item_total_sum (ct_items ex_decimal_dto)) = 14"
    "toUpperCase (''ca'' @ [CHR 0xC5, CHR 0xBF] @ ''h'') = ''CASH''"
    "Math_round (valid_breakdown_sum
       [\<lparr>pb_method = ''ca'' @ [CHR 0xC5, CHR 0xBF] @ ''h'', pb_amount = 1000000\<rparr>]) = 1000000"
    "Math_round (item_total_sum (ct_items ex_long_s_dto)) = 1000000"
    by code_simp+
  have ne: "[\<lparr>pb_method = ''cash'', pb_amount = 600000\<rparr>,
             \<lparr>pb_method = ''CARD'', pb_amount = (400000::rat)\<rparr>] \<noteq> []"
    "[\<lparr>pb_method = ''CASH'', pb_amount = (15::rat)\<rparr>] \<noteq> []"
    "[\<lparr>pb_method = ''ca'' @ [CHR 0xC5, CHR 0xBF] @ ''h'', pb_amount = (1000000::rat)\<rparr>] \<noteq> []"
    by simp_all
  note t1 = payments_check [OF u(1) p(1) ne(1), of 8]
  note t2 = payments_check [OF u(2) p(2) ne(2), of 8]
  note t3 = payments_check [OF u(3) p(3) ne(3), of 8]
  have c1: "\<exists>s'. TransactionService_create ex_store 8 ex_card_dto (Some 1) = Inr s'"
    using t1 unfolding v by simp
  have c2: "TransactionService_create ex_store 8 ex_decimal_dto (Some 1)
              = Inl (PaymentsMismatch 14 15)"
    using t2 unfolding v by simp
  have c3: "\<exists>s'. TransactionService_create ex_store 8 ex_long_s_dto (Some 1) = Inr s'"
    using t3 unfolding v by simp
  show ?thesis
    using u p i v c1 c2 c3 by blast
qed

section \<open>Claims about bonus and penalty\<close>

lemma bonusService_create_frame [simp]:
  "bonuses (bonusService_create s b) = bonuses s @ [b]"
  "transactions (bonusService_create s b) = transactions s"
  by (simp_all add: bonusService_create_def)

lemma create_line_bonuses_bonuses:
  "bonuses (create_line_bonuses s u b t totalDiff pool infos) =
     bonuses s @
       map (\<lambda>info. \<lparr>bonus_userId = u, bonus_branchId = b,
                     bonus_amount = bonusAmount totalDiff pool info,
                     bonus_reason = ''SALES_BONUS'', bonus_transactionId = Some t\<rparr>)
         (filter (\<lambda>info. bonusAmount totalDiff pool info > 0) infos)"
  by (induction infos arbitrary: s) simp_all

lemmas bonus_defs =
  calculateAndCreateSalesBonuses_def usdToSomRate_def totalBonusProductsValue_def
  potentialBonusItems_def fallback_rows_def fallback_item_value_def bonus_product_value_def
  itemDiffs_def item_diff_def quantity_or_one_def totalPriceDifferenceForTransaction_def
  totalSellingAll_def totalCostAll_def grossDiffAfterBonusCost_def bonusAmount_def
  bonusService_create_def update_transaction_def
  Math_round_numeral Math_round_zero

lemmas bonus_ex_defs =
  ex_sold_items_def ex_mixed_sale_def ex_mixed_store_def ex_store_def ex_product_def

lemma ex_grossDiff: "grossDiffAfterBonusCost ex_mixed_store (usdToSomRate 0 0) 9 ex_sold_items = - 30000"
  by (simp add: bonus_defs bonus_ex_defs js_defs)

text \<open>
  C3, as the claim states it, fails: for the example sale of two lines the gross margin
  is negative, and the calculation creates a bonus record for the first line and a
  penalty record.
\<close>

theorem bonus_and_penalty_counterexample:
  "grossDiffAfterBonusCost ex_mixed_store (usdToSomRate 0 0) 9 ex_sold_items = - 30000 \<and>
   bonuses ex_mixed_store = [] \<and>
   map (\<lambda>b. (bonus_reason b, bonus_amount b))
     (bonuses (calculateAndCreateSalesBonuses ex_mixed_store 0 0 9 ex_mixed_sale
                 ex_sold_items 1))
     = [(''SALES_BONUS'', 4000), (''SALES_PENALTY'', - 30000)]"
  by (simp add: bonus_defs bonus_ex_defs js_defs)

text \<open>
  C3, amended. For every sale the calculation processes (the seller exists), exactly one
  penalty record is created when the gross margin is negative, its amount the gross
  margin, and none otherwise; one bonus record with a positive amount is created for
  each contributing line whose bonus amount is positive, whatever the sign of the gross
  margin; nothing else is created.
\<close>

theorem bonus_and_penalty:
  assumes "users s soldByUserId = Some seller"
  shows "\<exists>created.
     bonuses (calculateAndCreateSalesBonuses s rateBranch rateGlobal transactionId transaction
                items soldByUserId) = bonuses s @ created \<and>
     map bonus_amount (filter (\<lambda>b. bonus_reason b = ''SALES_PENALTY'') created) =
       (if grossDiffAfterBonusCost s (usdToSomRate rateBranch rateGlobal) transactionId items < 0
        then [grossDiffAfterBonusCost s (usdToSomRate rateBranch rateGlobal) transactionId items]
        else []) \<and>
     map bonus_amount (filter (\<lambda>b. bonus_reason b = ''SALES_BONUS'') created) =
       filter (\<lambda>a. a > 0)
         (map (bonusAmount
                 (totalPriceDifferenceForTransaction s (usdToSomRate rateBranch rateGlobal) items)
                 (max 0 (totalPriceDifferenceForTransaction s
                           (usdToSomRate rateBranch rateGlobal) items
                         - totalBonusProductsValue s (usdToSomRate rateBranch rateGlobal)
                             transactionId items)))
            (itemDiffs s (usdToSomRate rateBranch rateGlobal) items)) \<and>
     (\<forall>b\<in>set created. bonus_reason b = ''SALES_BONUS'' \<or> bonus_reason b = ''SALES_PENALTY'')"
  using assms
  by (auto simp: calculateAndCreateSalesBonuses_def Let_def create_line_bonuses_bonuses
        filter_map comp_def)

theorem bonus_and_penalty_witness:
  "users ex_mixed_store 1 = Some \<lparr>user_branchId = Some 1\<rparr> \<and>
   (\<exists>created.
      bonuses (calculateAndCreateSalesBonuses ex_mixed_store 0 0 9 ex_mixed_sale
                 ex_sold_items 1) = bonuses ex_mixed_store @ created \<and>
      map bonus_amount (filter (\<lambda>b. bonus_reason b = ''SALES_PENALTY'') created) = [- 30000] \<and>
      map bonus_amount (filter (\<lambda>b. bonus_reason b = ''SALES_BONUS'') created) = [4000])"
proof -
  have u: "users ex_mixed_store 1 = Some \<lparr>user_branchId = Some 1\<rparr>"
    by (simp add: bonus_ex_defs)
  have d: "filter (\<lambda>a. a > 0)
         (map (bonusAmount
                 (totalPriceDifferenceForTransaction ex_mixed_store (usdToSomRate 0 0) ex_sold_items)
                 (max 0 (totalPriceDifferenceForTransaction ex_mixed_store
                           (usdToSomRate 0 0) ex_sold_items
                         - totalBonusProductsValue ex_mixed_store (usdToSomRate 0 0)
                             9 ex_sold_items)))
            (itemDiffs ex_mixed_store (usdToSomRate 0 0) ex_sold_items)) = [4000]"
    by (simp add: bonus_defs bonus_ex_defs js_defs)
  show ?thesis
    using bonus_and_penalty [OF u, of 0 0 9 ex_mixed_sale ex_sold_items] u
    unfolding ex_grossDiff d by auto
qed

end
